theory Spec2Isabelle
  imports Complex_Main "HOL-Library.Word"
begin

unbundle bit_operations_syntax

section \<open>RNS.Link: values, constants and wire types\<close>

text \<open>
  A shallow embedding of \<open>RNS/Link.py\<close>: the signalling codec, the Link state with its
  handshake, proof validation, teardown, packet dispatcher and watchdog, and the request
  receipts.

  Python \<open>bytes\<close> are lists of 8-bit words, Python integers are \<open>int\<close>, Python floats
  (time stamps, round-trip times) are idealised as \<open>real\<close>.  A raised exception is a value of
  \<open>error\<close>.

  A method of the Link is a function from the Link before the call to the Link after it,
  together with the list of what the method did outside the Link (log lines, packets handed to
  \<open>RNS.Packet(...).send()\<close>, calls into Transport, Resource and Channel, application
  callbacks) and, where an exception can escape the method, that exception; the assignments
  made before a raise are kept.  The clock is an argument: \<open>now\<close> is what \<open>time.time()\<close>
  returns during the call, and a method that reads the clock more than once reads the same
  value.  The methods run one at a time: a pass of the watchdog loop, a \<open>receive\<close> and a
  \<open>teardown\<close> do not overlap.  Code outside \<open>Link.py\<close> (cryptography, serializer, Packet,
  Resource, Channel, Transport, application callbacks) is either a parameter of the model or an
  event.
\<close>

type_synonym bytes = "8 word list"

datatype error = TypeError | KeyError | ValueError | IOError | IndexError
  | StructError | ZeroDivisionError | AttributeError | CryptoError | UnpackError

definition ECPUBSIZE :: nat where "ECPUBSIZE = 32 + 32"
definition KEYSIZE :: nat where "KEYSIZE = 32"
definition LINK_MTU_SIZE :: nat where "LINK_MTU_SIZE = 3"

definition TRAFFIC_TIMEOUT_FACTOR :: real where "TRAFFIC_TIMEOUT_FACTOR = 6"
definition KEEPALIVE_MAX_RTT :: real where "KEEPALIVE_MAX_RTT = 1.75"
definition KEEPALIVE_TIMEOUT_FACTOR :: real where "KEEPALIVE_TIMEOUT_FACTOR = 4"
definition STALE_GRACE :: real where "STALE_GRACE = 5"
definition KEEPALIVE_MAX :: real where "KEEPALIVE_MAX = 360"
definition KEEPALIVE_MIN :: real where "KEEPALIVE_MIN = 5"
definition KEEPALIVE :: real where "KEEPALIVE = KEEPALIVE_MAX"
definition STALE_FACTOR :: real where "STALE_FACTOR = 2"
definition STALE_TIME :: real where "STALE_TIME = STALE_FACTOR * KEEPALIVE"
definition WATCHDOG_MAX_SLEEP :: real where "WATCHDOG_MAX_SLEEP = 5"

datatype link_status = PENDING | HANDSHAKE | ACTIVE | STALE | CLOSED

datatype teardown_reason = TIMEOUT | INITIATOR_CLOSED | DESTINATION_CLOSED

datatype resource_strategy = ACCEPT_NONE | ACCEPT_APP | ACCEPT_ALL

definition MODE_AES128_CBC :: int where "MODE_AES128_CBC = 0x00"
definition MODE_AES256_CBC :: int where "MODE_AES256_CBC = 0x01"
definition MODE_AES256_GCM :: int where "MODE_AES256_GCM = 0x02"
definition MODE_OTP_RESERVED :: int where "MODE_OTP_RESERVED = 0x03"
definition MODE_PQ_RESERVED_1 :: int where "MODE_PQ_RESERVED_1 = 0x04"
definition MODE_PQ_RESERVED_2 :: int where "MODE_PQ_RESERVED_2 = 0x05"
definition MODE_PQ_RESERVED_3 :: int where "MODE_PQ_RESERVED_3 = 0x06"
definition MODE_PQ_RESERVED_4 :: int where "MODE_PQ_RESERVED_4 = 0x07"
definition ENABLED_MODES :: "int list" where "ENABLED_MODES = [MODE_AES256_CBC]"
definition MODE_DEFAULT :: int where "MODE_DEFAULT = MODE_AES256_CBC"

text \<open>The keys of the dictionary \<open>MODE_DESCRIPTIONS\<close>; a lookup of any other mode raises
  \<open>KeyError\<close>.\<close>

definition MODE_DESCRIPTIONS_keys :: "int list" where
  "MODE_DESCRIPTIONS_keys = [MODE_AES128_CBC, MODE_AES256_CBC, MODE_AES256_GCM,
     MODE_OTP_RESERVED, MODE_PQ_RESERVED_1, MODE_PQ_RESERVED_2, MODE_PQ_RESERVED_3,
     MODE_PQ_RESERVED_4]"

definition MTU_BYTEMASK :: int where "MTU_BYTEMASK = 0x1FFFFF"
definition MODE_BYTEMASK :: int where "MODE_BYTEMASK = 0xE0"

text \<open>The packet types and the packet contexts that \<open>Link.py\<close> names.  Their numeric values
  live in \<open>RNS.Packet\<close> and play no role here; every other context is \<open>OTHER_CONTEXT\<close>.\<close>

datatype packet_type = DATA | ANNOUNCE | LINKREQUEST | PROOF

datatype packet_context = NONE | RESOURCE | RESOURCE_ADV | RESOURCE_REQ | RESOURCE_HMU
  | RESOURCE_PRF | RESOURCE_ICL | RESOURCE_RCL | REQUEST | RESPONSE | CHANNEL
  | KEEPALIVE_CTX | LINKIDENTIFY | LINKCLOSE | LRRTT | LRPROOF | OTHER_CONTEXT nat

text \<open>An inbound packet as \<open>Link.py\<close> reads it.  \<open>receiving_interface\<close> is the identity of
  the interface object (or \<open>None\<close>); the field \<open>pcontext\<close> is the packet's \<open>context\<close>,
  \<open>truncated_hash\<close> is what \<open>packet.getTruncatedHash()\<close> returns.\<close>

record packet =
  packet_type :: packet_type
  pcontext :: packet_context
  data :: bytes
  raw :: bytes
  packet_hash :: bytes
  truncated_hash :: bytes
  receiving_interface :: "nat option"
  pkt_rssi :: "real option"
  pkt_snr :: "real option"
  pkt_q :: "real option"

section \<open>The signalling codec\<close>

text \<open>\<open>struct.pack(">I", v)\<close>: four bytes, most significant first; a value outside
  \<open>0 .. 2^32 - 1\<close> raises \<open>struct.error\<close>.\<close>

definition byte_of :: "int \<Rightarrow> 8 word" where
  "byte_of v = word_of_int v"

definition struct_pack_I :: "int \<Rightarrow> error + bytes" where
  "struct_pack_I v =
     (if 0 \<le> v \<and> v < 2 ^ 32
      then Inr [byte_of (drop_bit 24 v), byte_of (drop_bit 16 v), byte_of (drop_bit 8 v), byte_of v]
      else Inl StructError)"

text \<open>\<open>Link.signalling_bytes(mtu, mode)\<close>.  The message of the \<open>TypeError\<close> looks the mode up
  in \<open>MODE_DESCRIPTIONS\<close>, so a mode outside that dictionary raises \<open>KeyError\<close> instead.\<close>

definition signalling_bytes :: "int \<Rightarrow> int \<Rightarrow> error + bytes" where
  "signalling_bytes mtu mode =
     (if mode \<notin> set ENABLED_MODES
      then (if mode \<in> set MODE_DESCRIPTIONS_keys then Inl TypeError else Inl KeyError)
      else
        (let signalling_value =
               (mtu AND MTU_BYTEMASK) + push_bit 16 (push_bit 5 mode AND MODE_BYTEMASK)
         in case struct_pack_I signalling_value of
              Inl e \<Rightarrow> Inl e
            | Inr bs \<Rightarrow> Inr (drop 1 bs)))"

text \<open>\<open>Link.mtu_from_lr_packet(packet)\<close>; \<open>+\<close> binds tighter than \<open>&\<close> in Python.\<close>

definition mtu_from_lr_packet :: "'a packet_scheme \<Rightarrow> int option" where
  "mtu_from_lr_packet packet =
     (if length (data packet) = ECPUBSIZE + LINK_MTU_SIZE
      then Some ((push_bit 16 (uint (data packet ! ECPUBSIZE))
                  + push_bit 8 (uint (data packet ! (ECPUBSIZE + 1)))
                  + uint (data packet ! (ECPUBSIZE + 2))) AND MTU_BYTEMASK)
      else None)"

text \<open>\<open>Link.mode_byte(mode)\<close>.\<close>

definition mode_byte :: "int \<Rightarrow> error + int" where
  "mode_byte mode =
     (if mode \<in> set ENABLED_MODES then Inr (push_bit 5 mode AND MODE_BYTEMASK)
      else Inl TypeError)"

text \<open>\<open>Link.mode_from_lr_packet(packet)\<close>.\<close>

definition mode_from_lr_packet :: "'a packet_scheme \<Rightarrow> int" where
  "mode_from_lr_packet packet =
     (if length (data packet) > ECPUBSIZE
      then drop_bit 5 (uint (data packet ! ECPUBSIZE) AND MODE_BYTEMASK)
      else MODE_DEFAULT)"

text \<open>The value of a byte string read as a big-endian unsigned number; used to state what the
  three signalling bytes hold.\<close>

definition be_value :: "bytes \<Rightarrow> int" where
  "be_value bs = foldl (\<lambda>acc b. acc * 256 + uint b) 0 bs"

section \<open>Objects, collaborators and the Link state\<close>

text \<open>Values produced by the \<open>umsgpack\<close> serializer and by request handlers.  \<open>PyFile\<close> is an
  open \<open>io.BufferedReader\<close>.\<close>

datatype pyobj = PyNone | PyBool bool | PyInt int | PyFloat real | PyBytes bytes
  | PyStr string | PyList "pyobj list" | PyFile nat

datatype log_level = LOG_CRITICAL | LOG_ERROR | LOG_WARNING | LOG_NOTICE | LOG_INFO
  | LOG_VERBOSE | LOG_DEBUG | LOG_EXTREME

text \<open>One constructor per \<open>RNS.log\<close> call site of the modelled methods.\<close>

datatype log_msg =
    ValidatingProofMode int
  | ConfirmedLinkMtu int
  | LinkEstablishedRtt
  | InvalidProofSignatureIgnoring
  | ProofValidationError
  | ProofValidationException error
  | HandshakeInvalidState link_status
  | RttPacketError error
  | EstablishedCallbackError
  | LinkClosedCallbackError
  | EstablishmentTimedOut
  | TimeoutWaitingForProof
  | TimeoutWaitingForRtt
  | WatchdogSleepZero
  | TimingErrorTearingDown
  | UnexpectedInterface "nat option" "nat option"
  | DecryptionFailed
  | ProofRequestCallbackError
  | RemoteIdentifiedCallbackError
  | HandlingRequestError error
  | HandlingResponseError error
  | HandlingRequest bytes
  | RequestNotAllowed bytes
  | ResourceCallbackError
  | ChannelDataWithoutChannel
  | RequestFailedCallbackError
  | SendingRequestAsResource bytes

text \<open>Application callbacks.  They run application code: the model records that a callback
  is invoked and with what, and takes it to return without touching the Link.\<close>

datatype callback =
    CbLinkEstablished
  | CbOwnerLinkEstablished
  | CbLinkClosed
  | CbPacket bytes
  | CbRemoteIdentified bytes
  | CbReceiptResponse nat
  | CbReceiptFailed nat
  | CbReceiptProgress nat
  | CbReceiptDelivery nat

text \<open>What a method does to the world outside the Link object, in order: log lines, packets
  handed to \<open>RNS.Packet(...).send()\<close> (with the payload given to the constructor), calls into
  Transport, Resource and Channel, and callbacks.\<close>

datatype event =
    Log log_level log_msg
  | Send packet_type packet_context bytes
  | Callback callback
  | TransportActivateLink
  | ResourceCancel bytes
  | ResourceRejected bytes
  | ResourceRequest bytes bytes
  | ResourceHashmapUpdate bytes bytes
  | ResourceReceivePart bytes bytes
  | ResourceValidateProof bytes bytes
  | ResourceAccept bytes
  | ResourceReject bytes
  | ResourceNew pyobj "bytes option" bool
  | ChannelShutdown
  | ChannelReceive bytes

fun is_send :: "event \<Rightarrow> bool" where
  "is_send (Send t c d) = True"
| "is_send e = False"

fun is_log :: "event \<Rightarrow> bool" where
  "is_log (Log lv m) = True"
| "is_log e = False"

fun is_callback :: "event \<Rightarrow> bool" where
  "is_callback (Callback c) = True"
| "is_callback e = False"

datatype direction = IN | OUT

datatype proof_strategy = PROVE_NONE | PROVE_APP | PROVE_ALL

datatype allow_policy = ALLOW_NONE | ALLOW_ALL | ALLOW_LIST

text \<open>An entry of \<open>destination.request_handlers\<close>: path, response generator (its number of
  parameters and what it returns for the argument list, \<open>Inl\<close> when it raises), allow policy,
  allowed list and auto-compress flag.\<close>

record request_handler =
  rh_path :: string
  rh_parameters :: nat
  rh_response_generator :: "pyobj list \<Rightarrow> error + pyobj"
  rh_allow :: allow_policy
  rh_allowed_list :: "bytes list"
  rh_auto_compress :: bool

text \<open>The part of an \<open>RNS.Destination\<close> that \<open>Link.py\<close> reads or writes.  \<open>links_has_self\<close>
  says whether this Link is in \<open>destination.links\<close>; \<open>identity_hash\<close> and
  \<open>identity_public_key\<close> belong to \<open>destination.identity\<close>.\<close>

record destination =
  direction :: direction
  links_has_self :: bool
  proof_strategy :: proof_strategy
  proof_requested :: "(packet \<Rightarrow> bool option) option"
  identity_public_key :: bytes
  request_handlers :: "(bytes \<times> request_handler) list"

text \<open>An \<open>RNS.Resource\<close> registered with the Link.\<close>

record resource =
  res_hash :: bytes
  req_hashlist :: "bytes list"

datatype receipt_status = FAILED | SENT | DELIVERED | RECEIVING | READY

text \<open>The \<open>PacketReceipt\<close> held by a receipt of an inline request.\<close>

record packet_receipt =
  pr_delivered :: bool
  pr_proved :: bool
  pr_concluded_at :: "real option"
  pr_delivery_callback :: bool

text \<open>A \<open>RequestReceipt\<close>.  The three callbacks are recorded by whether they are set.\<close>

record request_receipt =
  request_id :: bytes
  request_size :: int
  packet_receipt :: "packet_receipt option"
  started_at :: "real option"
  sent_at :: real
  timeout :: real
  response :: "pyobj option"
  response_transfer_size :: "int option"
  response_size :: "int option"
  metadata :: "pyobj option"
  rstatus :: receipt_status
  progress :: real
  concluded_at :: "real option"
  response_concluded_at :: "real option"
  cb_response :: bool
  cb_failed :: bool
  cb_progress :: bool

text \<open>
  The Link object.  Fields keep their names in \<open>Link.py\<close>; an attribute that is \<open>None\<close> or
  not yet assigned is \<open>None\<close>.  Keys and key objects are the byte strings they hold;
  \<open>token\<close> is the key its \<open>Token\<close> was built from.  \<open>remote_identity\<close> is the name-mangled
  \<open>__remote_identity\<close> (the identity's public key), \<open>channel\<close> says whether \<open>_channel\<close> is
  set, \<open>owner_link_established\<close> is \<open>None\<close> without an owner and otherwise says whether
  \<open>owner.callbacks.link_established\<close> is set.  \<open>callbacks_*\<close> are the fields of
  \<open>self.callbacks\<close>; \<open>callbacks_resource\<close> gives the application's decision on an
  advertisement (\<open>None\<close> when the callback raises).

  \<open>RequestReceipt\<close> objects live in the heap \<open>receipts\<close>; \<open>pending_requests\<close> holds their
  addresses, so that a receipt can change while it is or is not in the list.
\<close>

record link =
  mode :: int
  rtt :: "real option"
  mtu :: int
  mdu :: "int option"
  establishment_cost :: int
  establishment_rate :: "real option"
  callbacks_link_established :: bool
  callbacks_link_closed :: bool
  callbacks_packet :: bool
  callbacks_resource :: "(bytes \<Rightarrow> bool option) option"
  callbacks_remote_identified :: bool
  resource_strategy :: resource_strategy
  outgoing_resources :: "resource list"
  incoming_resources :: "resource list"
  pending_requests :: "nat list"
  receipts :: "request_receipt list"
  last_inbound :: real
  last_outbound :: real
  last_keepalive :: real
  last_proof :: real
  last_data :: real
  tx :: int
  rx :: int
  txbytes :: int
  rxbytes :: int
  rssi :: "real option"
  snr :: "real option"
  q :: "real option"
  traffic_timeout_factor :: real
  keepalive_timeout_factor :: real
  keepalive :: real
  stale_time :: real
  watchdog_lock :: bool
  status :: link_status
  activated_at :: "real option"
  owner_link_established :: "bool option"
  destination :: "destination option"
  attached_interface :: "nat option"
  remote_identity :: "bytes option"
  track_phy_stats :: bool
  channel :: bool
  initiator :: bool
  prv :: "bytes option"
  sig_prv :: "bytes option"
  token :: "bytes option"
  pub :: "bytes option"
  pub_bytes :: "bytes option"
  sig_pub :: "bytes option"
  sig_pub_bytes :: "bytes option"
  peer_pub :: "bytes option"
  peer_pub_bytes :: "bytes option"
  peer_sig_pub :: "bytes option"
  peer_sig_pub_bytes :: "bytes option"
  shared_key :: "bytes option"
  derived_key :: "bytes option"
  link_id :: bytes
  request_time :: real
  establishment_timeout :: real
  teardown_reason :: "teardown_reason option"

text \<open>
  What \<open>Link.py\<close> takes from the rest of the stack: the constants of \<open>RNS.Reticulum\<close> and
  \<open>RNS.Identity\<close> (lengths \<open>SIGLENGTH\<close>, \<open>IDENTITY_KEYSIZE\<close>, \<open>HASHLENGTH\<close> in bits), the
  cryptographic primitives, the serializer, the resource-advertisement readers and the
  physical-layer statistics.  A primitive that raises returns \<open>None\<close>.
  \<open>sign k msg\<close> is \<open>sign(msg)\<close> on the Ed25519 private key \<open>k\<close>;
  \<open>RESPONSE_MAX_GRACE_TIME\<close> is the constant of \<open>RNS.Resource\<close>.
  \<open>identity_validate pk sg msg\<close> is \<open>validate(sg, msg)\<close> on the identity with public
  key \<open>pk\<close>; \<open>resource_accept\<close> gives the hash and progress of the accepted resource.
\<close>

record env =
  Reticulum_MTU :: int
  HEADER_MINSIZE :: int
  HEADER_MAXSIZE :: int
  IFAC_MIN_SIZE :: int
  TOKEN_OVERHEAD :: int
  AES128_BLOCKSIZE :: int
  SIGLENGTH :: nat
  IDENTITY_KEYSIZE :: nat
  HASHLENGTH :: nat
  MAPHASH_LEN :: nat
  HASHMAP_IS_EXHAUSTED :: "8 word"
  RESPONSE_MAX_GRACE_TIME :: real
  x25519_from_public_bytes :: "bytes \<Rightarrow> bytes option"
  ed25519_from_public_bytes :: "bytes \<Rightarrow> bytes option"
  exchange :: "bytes \<Rightarrow> bytes \<Rightarrow> bytes option"
  hkdf :: "nat \<Rightarrow> bytes \<Rightarrow> bytes \<Rightarrow> bytes option"
  token_new :: "bytes option \<Rightarrow> bytes option"
  token_decrypt :: "bytes \<Rightarrow> bytes \<Rightarrow> bytes option"
  sign :: "bytes \<Rightarrow> bytes \<Rightarrow> bytes option"
  identity_validate :: "bytes \<Rightarrow> bytes \<Rightarrow> bytes \<Rightarrow> bool"
  identity_truncated_hash :: "bytes \<Rightarrow> bytes"
  packb :: "pyobj \<Rightarrow> bytes option"
  unpackb :: "bytes \<Rightarrow> pyobj option"
  adv_is_request :: "bytes \<Rightarrow> bool"
  adv_is_response :: "bytes \<Rightarrow> bool"
  adv_read_request_id :: "bytes \<Rightarrow> bytes"
  adv_read_size :: "bytes \<Rightarrow> int"
  adv_read_transfer_size :: "bytes \<Rightarrow> int"
  adv_unpack :: "bytes \<Rightarrow> bytes option"
  resource_accept :: "bytes \<Rightarrow> (bytes \<times> real) option"
  get_packet_rssi :: "bytes \<Rightarrow> real option"
  get_packet_snr :: "bytes \<Rightarrow> real option"
  get_packet_q :: "bytes \<Rightarrow> real option"

section \<open>Sizing and timers\<close>

text \<open>\<open>Link.update_mdu\<close>.  The first assignment is overwritten by the second.  Python's \<open>/\<close>
  is true division and raises \<open>ZeroDivisionError\<close> on a zero divisor; the second component is
  the exception raised, if any.\<close>

definition update_mdu :: "env \<Rightarrow> link \<Rightarrow> link \<times> error option" where
  "update_mdu e l =
     (let l1 = l\<lparr>mdu := Some (mtu l - HEADER_MAXSIZE e - IFAC_MIN_SIZE e)\<rparr>
      in if AES128_BLOCKSIZE e = 0 then (l1, Some ZeroDivisionError)
         else (l1\<lparr>mdu := Some
           (\<lfloor>real_of_int (mtu l1 - IFAC_MIN_SIZE e - HEADER_MINSIZE e - TOKEN_OVERHEAD e)
               / real_of_int (AES128_BLOCKSIZE e)\<rfloor> * AES128_BLOCKSIZE e - 1)\<rparr>, None))"

text \<open>\<open>Link.__update_keepalive\<close>; with \<open>rtt\<close> still \<open>None\<close> the product raises \<open>TypeError\<close>.\<close>

definition Link__update_keepalive :: "link \<Rightarrow> error + link" where
  "Link__update_keepalive l =
     (case rtt l of
        None \<Rightarrow> Inl TypeError
      | Some r \<Rightarrow>
          (let l1 = l\<lparr>keepalive :=
                 max (min (r * (KEEPALIVE_MAX / KEEPALIVE_MAX_RTT)) KEEPALIVE_MAX) KEEPALIVE_MIN\<rparr>
           in Inr (l1\<lparr>stale_time := keepalive l1 * STALE_FACTOR\<rparr>)))"

text \<open>\<open>Link.had_outbound\<close> at time \<open>now\<close>.\<close>

definition had_outbound :: "real \<Rightarrow> bool \<Rightarrow> link \<Rightarrow> link" where
  "had_outbound now is_keepalive l =
     (let l1 = l\<lparr>last_outbound := now\<rparr>
      in if \<not> is_keepalive then l1\<lparr>last_data := last_outbound l1\<rparr>
         else l1\<lparr>last_keepalive := last_outbound l1\<rparr>)"

section \<open>Sending, closing and tearing down\<close>

text \<open>\<open>Link.__teardown_packet\<close>: a \<open>DATA\<close> packet with context \<open>LINKCLOSE\<close> carrying
  \<open>link_id\<close>.\<close>

definition Link__teardown_packet :: "real \<Rightarrow> link \<Rightarrow> link \<times> event list" where
  "Link__teardown_packet now l = (had_outbound now False l, [Send DATA LINKCLOSE (link_id l)])"

text \<open>\<open>Link.send_keepalive\<close>.\<close>

definition send_keepalive :: "real \<Rightarrow> link \<Rightarrow> link \<times> event list" where
  "send_keepalive now l = (had_outbound now True l, [Send DATA KEEPALIVE_CTX [0xFF]])"

text \<open>\<open>Link.prove_packet(packet)\<close>: sign the packet hash with \<open>sig_prv\<close> (\<open>Link.sign\<close>), send
  hash and signature as a \<open>PROOF\<close> packet (the context defaults to \<open>NONE\<close>), note the outbound
  traffic.  There is no test of \<open>status\<close>.  A missing key or a failing signature raises before
  anything is sent.  \<open>packet.prove()\<close> on a packet received over a Link calls this method.\<close>

definition prove_packet :: "env \<Rightarrow> real \<Rightarrow> link \<Rightarrow> packet \<Rightarrow> link \<times> event list \<times> error option" where
  "prove_packet e now l p =
     (case sig_prv l of
        None \<Rightarrow> (l, [], Some AttributeError)
      | Some k \<Rightarrow>
          (case sign e k (packet_hash p) of
             None \<Rightarrow> (l, [], Some CryptoError)
           | Some signature \<Rightarrow>
               (let proof_data = packet_hash p @ signature
                in (had_outbound now False l, [Send PROOF NONE proof_data], None))))"


text \<open>\<open>Link.link_closed\<close>: cancel the registered resources, shut the channel down, purge
  \<open>prv\<close>, \<open>pub\<close>, \<open>pub_bytes\<close>, \<open>shared_key\<close> and \<open>derived_key\<close>, leave the list of an
  inbound destination, call the \<open>link_closed\<close> callback.\<close>

definition link_closed :: "link \<Rightarrow> link \<times> event list" where
  "link_closed l =
     (let ev1 = map (\<lambda>r. ResourceCancel (res_hash r)) (incoming_resources l);
          ev2 = map (\<lambda>r. ResourceCancel (res_hash r)) (outgoing_resources l);
          ev3 = (if channel l then [ChannelShutdown] else []);
          l1 = l\<lparr>prv := None\<rparr>;
          l2 = l1\<lparr>pub := None\<rparr>;
          l3 = l2\<lparr>pub_bytes := None\<rparr>;
          l4 = l3\<lparr>shared_key := None\<rparr>;
          l5 = l4\<lparr>derived_key := None\<rparr>;
          l6 = (case destination l5 of
                  None \<Rightarrow> l5
                | Some d \<Rightarrow>
                    if direction d = IN
                    then (if links_has_self d
                          then l5\<lparr>destination := Some (d\<lparr>links_has_self := False\<rparr>)\<rparr>
                          else l5)
                    else l5);
          ev4 = (if callbacks_link_closed l6 then [Callback CbLinkClosed] else [])
      in (l6, ev1 @ ev2 @ ev3 @ ev4))"

text \<open>\<open>Link.teardown\<close>.\<close>

definition teardown :: "real \<Rightarrow> link \<Rightarrow> link \<times> event list" where
  "teardown now l =
     (let (l1, ev1) = (if status l \<noteq> PENDING \<and> status l \<noteq> CLOSED
                       then Link__teardown_packet now l else (l, []));
          l2 = l1\<lparr>status := CLOSED\<rparr>;
          l3 = (if initiator l2 then l2\<lparr>teardown_reason := Some INITIATOR_CLOSED\<rparr>
                else l2\<lparr>teardown_reason := Some DESTINATION_CLOSED\<rparr>);
          (l4, ev2) = link_closed l3
      in (l4, ev1 @ ev2))"

text \<open>\<open>Link.__update_phy_stats(packet, query_shared, force_update)\<close>.\<close>

definition Link__update_phy_stats :: "env \<Rightarrow> link \<Rightarrow> packet \<Rightarrow> bool \<Rightarrow> bool \<Rightarrow> link" where
  "Link__update_phy_stats e l p query_shared force_update =
     (if track_phy_stats l \<or> force_update
      then
        (let p_rssi = (if query_shared \<and> pkt_rssi p = None
                       then get_packet_rssi e (packet_hash p) else pkt_rssi p);
             p_snr = (if query_shared \<and> pkt_snr p = None
                      then get_packet_snr e (packet_hash p) else pkt_snr p);
             p_q = (if query_shared \<and> pkt_q p = None
                    then get_packet_q e (packet_hash p) else pkt_q p);
             l1 = (if p_rssi \<noteq> None then l\<lparr>rssi := p_rssi\<rparr> else l);
             l2 = (if p_snr \<noteq> None then l1\<lparr>snr := p_snr\<rparr> else l1)
         in (if p_q \<noteq> None then l2\<lparr>q := p_q\<rparr> else l2))
      else l)"

text \<open>\<open>Link.decrypt\<close>: build the token on first use, decrypt; any exception is logged and
  gives \<open>None\<close>.\<close>

definition decrypt :: "env \<Rightarrow> link \<Rightarrow> bytes \<Rightarrow> link \<times> event list \<times> bytes option" where
  "decrypt e l ciphertext =
     (case token l of
        None \<Rightarrow>
          (case token_new e (derived_key l) of
             None \<Rightarrow> (l, [Log LOG_ERROR DecryptionFailed], None)
           | Some t \<Rightarrow>
               (case token_decrypt e t ciphertext of
                  None \<Rightarrow> (l\<lparr>token := Some t\<rparr>, [Log LOG_ERROR DecryptionFailed], None)
                | Some plaintext \<Rightarrow> (l\<lparr>token := Some t\<rparr>, [], Some plaintext)))
      | Some t \<Rightarrow>
          (case token_decrypt e t ciphertext of
             None \<Rightarrow> (l, [Log LOG_ERROR DecryptionFailed], None)
           | Some plaintext \<Rightarrow> (l, [], Some plaintext)))"

text \<open>\<open>Link.teardown_packet(packet)\<close>: a \<open>LINKCLOSE\<close> is honoured only when it decrypts to
  \<open>link_id\<close>.\<close>

definition teardown_packet :: "env \<Rightarrow> link \<Rightarrow> packet \<Rightarrow> link \<times> event list" where
  "teardown_packet e l p =
     (let (l1, ev1, plaintext) = decrypt e l (data p)
      in if plaintext = Some (link_id l1)
         then
           (let l2 = l1\<lparr>status := CLOSED\<rparr>;
                l3 = (if initiator l2 then l2\<lparr>teardown_reason := Some DESTINATION_CLOSED\<rparr>
                      else l2\<lparr>teardown_reason := Some INITIATOR_CLOSED\<rparr>);
                l4 = Link__update_phy_stats e l3 p True False;
                (l5, ev2) = link_closed l4
            in (l5, ev1 @ ev2))
         else (l1, ev1))"

section \<open>Handshake and proof validation\<close>

text \<open>\<open>Link.mtu_from_lp_packet\<close> and \<open>Link.mode_from_lp_packet\<close>, for a link-proof packet.\<close>

definition mtu_from_lp_packet :: "env \<Rightarrow> packet \<Rightarrow> int option" where
  "mtu_from_lp_packet e p =
     (if length (data p) = SIGLENGTH e div 8 + ECPUBSIZE div 2 + LINK_MTU_SIZE
      then
        (let mtu_bytes = take LINK_MTU_SIZE (drop (SIGLENGTH e div 8 + ECPUBSIZE div 2) (data p))
         in Some ((push_bit 16 (uint (mtu_bytes ! 0)) + push_bit 8 (uint (mtu_bytes ! 1))
                   + uint (mtu_bytes ! 2)) AND MTU_BYTEMASK))
      else None)"

definition mode_from_lp_packet :: "env \<Rightarrow> packet \<Rightarrow> int" where
  "mode_from_lp_packet e p =
     (if length (data p) > SIGLENGTH e div 8 + ECPUBSIZE div 2
      then drop_bit 5 (uint (data p ! (SIGLENGTH e div 8 + ECPUBSIZE div 2)))
      else MODE_DEFAULT)"

text \<open>\<open>Link.load_peer\<close>; the second component is the exception raised, if any, with the
  assignments made before it kept.\<close>

definition load_peer :: "env \<Rightarrow> link \<Rightarrow> bytes \<Rightarrow> bytes \<Rightarrow> link \<times> error option" where
  "load_peer e l peer_pub_bytes_arg peer_sig_pub_bytes_arg =
     (let l1 = l\<lparr>peer_pub_bytes := Some peer_pub_bytes_arg\<rparr>
      in case x25519_from_public_bytes e peer_pub_bytes_arg of
           None \<Rightarrow> (l1, Some CryptoError)
         | Some k \<Rightarrow>
             (let l2 = l1\<lparr>peer_pub := Some k\<rparr>;
                  l3 = l2\<lparr>peer_sig_pub_bytes := Some peer_sig_pub_bytes_arg\<rparr>
              in case ed25519_from_public_bytes e peer_sig_pub_bytes_arg of
                   None \<Rightarrow> (l3, Some CryptoError)
                 | Some sk \<Rightarrow> (l3\<lparr>peer_sig_pub := Some sk\<rparr>, None)))"

text \<open>\<open>Link.handshake\<close>.  The salt of the key derivation is \<open>link_id\<close>.\<close>

definition handshake :: "env \<Rightarrow> link \<Rightarrow> link \<times> event list \<times> error option" where
  "handshake e l =
     (if status l = PENDING \<and> prv l \<noteq> None
      then
        (let l1 = l\<lparr>status := HANDSHAKE\<rparr>
         in case (case (prv l1, peer_pub l1) of
                    (Some k, Some pk) \<Rightarrow> exchange e k pk
                  | _ \<Rightarrow> None) of
              None \<Rightarrow> (l1, [], Some CryptoError)
            | Some sk \<Rightarrow>
                (let l2 = l1\<lparr>shared_key := Some sk\<rparr>
                 in if mode l2 \<noteq> MODE_AES128_CBC \<and> mode l2 \<noteq> MODE_AES256_CBC
                    then (l2, [], Some TypeError)
                    else
                      (let derived_key_length =
                             (if mode l2 = MODE_AES128_CBC then 32 else 64)
                       in case hkdf e derived_key_length sk (link_id l2) of
                            None \<Rightarrow> (l2, [], Some CryptoError)
                          | Some dk \<Rightarrow> (l2\<lparr>derived_key := Some dk\<rparr>, [], None))))
      else (l, [Log LOG_ERROR (HandshakeInvalidState (status l))], None))"

text \<open>The data signed by the responder's proof and the signature slice, as \<open>validate_proof\<close>
  forms them: \<open>link_id + peer_pub_bytes + peer_sig_pub_bytes + signalling_bytes\<close>, where the
  peer's signing key is bytes 32 to 64 of the destination identity's public key.\<close>

definition proof_peer_pub_bytes :: "env \<Rightarrow> bytes \<Rightarrow> bytes" where
  "proof_peer_pub_bytes e proof_data =
     take (ECPUBSIZE div 2) (drop (SIGLENGTH e div 8) proof_data)"

definition proof_peer_sig_pub_bytes :: "destination \<Rightarrow> bytes" where
  "proof_peer_sig_pub_bytes d =
     take (ECPUBSIZE - ECPUBSIZE div 2) (drop (ECPUBSIZE div 2) (identity_public_key d))"

definition proof_signed_data :: "env \<Rightarrow> link \<Rightarrow> destination \<Rightarrow> bytes \<Rightarrow> bytes \<Rightarrow> bytes" where
  "proof_signed_data e l d proof_data sb =
     link_id l @ proof_peer_pub_bytes e proof_data @ proof_peer_sig_pub_bytes d @ sb"

definition proof_signature :: "env \<Rightarrow> bytes \<Rightarrow> bytes" where
  "proof_signature e proof_data = take (SIGLENGTH e div 8) proof_data"

text \<open>The branch of \<open>validate_proof\<close> taken when the signature validates: the Link becomes
  \<open>ACTIVE\<close> and sends its \<open>LRRTT\<close> packet.\<close>

definition validate_proof_accept ::
    "env \<Rightarrow> real \<Rightarrow> link \<Rightarrow> destination \<Rightarrow> packet \<Rightarrow> int option
       \<Rightarrow> link \<times> event list \<times> error option" where
  "validate_proof_accept e now l d p confirmed_mtu =
     (if status l \<noteq> HANDSHAKE then (l, [], Some IOError)
      else
        (let l1 = l\<lparr>rtt := Some (now - request_time l)\<rparr>;
             l2 = l1\<lparr>attached_interface := receiving_interface p\<rparr>;
             l3 = l2\<lparr>remote_identity := Some (identity_public_key d)\<rparr>;
             l4 = l3\<lparr>mtu := (case confirmed_mtu of
                                None \<Rightarrow> Reticulum_MTU e
                              | Some m \<Rightarrow> if m \<noteq> 0 then m else Reticulum_MTU e)\<rparr>
         in case update_mdu e l4 of
              (l5, Some err) \<Rightarrow> (l5, [], Some err)
            | (l5, None) \<Rightarrow>
                (let l6 = l5\<lparr>status := ACTIVE\<rparr>;
                     l7 = l6\<lparr>activated_at := Some now\<rparr>;
                     l8 = l7\<lparr>last_proof := now\<rparr>;
                     ev1 = [TransportActivateLink, Log LOG_DEBUG LinkEstablishedRtt];
                     l9 = (if now - request_time l > 0 \<and> establishment_cost l8 > 0
                           then l8\<lparr>establishment_rate :=
                                  Some (real_of_int (establishment_cost l8) / (now - request_time l))\<rparr>
                           else l8)
                 in case Link__update_keepalive l9 of
                      Inl err \<Rightarrow> (l9, ev1, Some err)
                    | Inr l10 \<Rightarrow>
                        (case packb e (PyFloat (now - request_time l)) of
                           None \<Rightarrow> (l10, ev1, Some TypeError)
                         | Some rtt_data \<Rightarrow>
                             (let l11 = had_outbound now False l10;
                                  l12 = Link__update_phy_stats e l11 p True False;
                                  ev2 = (if callbacks_link_established l12
                                         then [Callback CbLinkEstablished] else [])
                              in (l12, ev1 @ [Send DATA LRRTT rtt_data] @ ev2, None))))))"

text \<open>The body of the \<open>try\<close> block of \<open>Link.validate_proof\<close>; the third component is the
  exception that leaves it.\<close>

definition validate_proof_body ::
    "env \<Rightarrow> real \<Rightarrow> link \<Rightarrow> packet \<Rightarrow> link \<times> event list \<times> error option" where
  "validate_proof_body e now l p =
     (if status l = PENDING
      then
        (let md = mode_from_lp_packet e p;
             ev0 = [Log LOG_DEBUG (ValidatingProofMode md)]
         in if md \<noteq> mode l then (l, ev0, Some TypeError)
            else
              (case (if length (data p) = SIGLENGTH e div 8 + ECPUBSIZE div 2 + LINK_MTU_SIZE
                     then (case mtu_from_lp_packet e p of
                             None \<Rightarrow> Inl TypeError
                           | Some cm \<Rightarrow>
                               (case signalling_bytes cm md of
                                  Inl err \<Rightarrow> Inl err
                                | Inr sb \<Rightarrow>
                                    Inr (Some cm, sb,
                                         p\<lparr>data := take (SIGLENGTH e div 8 + ECPUBSIZE div 2) (data p)\<rparr>,
                                         [Log LOG_DEBUG (ConfirmedLinkMtu cm)])))
                     else Inr (None, [], p, [])) of
                 Inl err \<Rightarrow> (l, ev0, Some err)
               | Inr (confirmed_mtu, sb, p1, ev1) \<Rightarrow>
                   if initiator l \<and> length (data p1) = SIGLENGTH e div 8 + ECPUBSIZE div 2
                   then
                     (case destination l of
                        None \<Rightarrow> (l, ev0 @ ev1, Some AttributeError)
                      | Some d \<Rightarrow>
                          (case load_peer e l (proof_peer_pub_bytes e (data p1))
                                  (proof_peer_sig_pub_bytes d) of
                             (l1, Some err) \<Rightarrow> (l1, ev0 @ ev1, Some err)
                           | (l1, None) \<Rightarrow>
                               (case handshake e l1 of
                                  (l2, ev2, Some err) \<Rightarrow> (l2, ev0 @ ev1 @ ev2, Some err)
                                | (l2, ev2, None) \<Rightarrow>
                                    (let l3 = l2\<lparr>establishment_cost :=
                                                establishment_cost l2 + int (length (raw p1))\<rparr>
                                     in if identity_validate e (identity_public_key d)
                                             (proof_signature e (data p1))
                                             (proof_signed_data e l3 d (data p1) sb)
                                        then (case validate_proof_accept e now l3 d p1 confirmed_mtu of
                                                (l4, ev3, r) \<Rightarrow> (l4, ev0 @ ev1 @ ev2 @ ev3, r))
                                        else (l3, ev0 @ ev1 @ ev2
                                                @ [Log LOG_DEBUG InvalidProofSignatureIgnoring],
                                              None)))))
                   else (l, ev0 @ ev1, None)))
      else (l, [], None))"

text \<open>\<open>Link.validate_proof\<close>: the \<open>except\<close> clause sets \<open>status = CLOSED\<close> and logs twice;
  it does not call \<open>link_closed\<close>.\<close>

definition validate_proof :: "env \<Rightarrow> real \<Rightarrow> link \<Rightarrow> packet \<Rightarrow> link \<times> event list" where
  "validate_proof e now l p =
     (case validate_proof_body e now l p of
        (l1, ev, None) \<Rightarrow> (l1, ev)
      | (l1, ev, Some err) \<Rightarrow>
          (l1\<lparr>status := CLOSED\<rparr>,
           ev @ [Log LOG_ERROR ProofValidationError, Log LOG_ERROR (ProofValidationException err)]))"

section \<open>Requests and responses\<close>

text \<open>Subscripting a deserialized object: lists (and tuples) give their element, byte
  strings an integer, strings a one-character string; anything else is not subscriptable.\<close>

fun py_index :: "pyobj \<Rightarrow> nat \<Rightarrow> error + pyobj" where
  "py_index (PyList xs) i = (if i < length xs then Inr (xs ! i) else Inl IndexError)"
| "py_index (PyBytes b) i = (if i < length b then Inr (PyInt (uint (b ! i))) else Inl IndexError)"
| "py_index (PyStr cs) i = (if i < length cs then Inr (PyStr [cs ! i]) else Inl IndexError)"
| "py_index ob i = Inl TypeError"

text \<open>The number a deserialized object stands for in a comparison with a float, if any.\<close>

fun py_number :: "pyobj \<Rightarrow> real option" where
  "py_number (PyInt i) = Some (real_of_int i)"
| "py_number (PyFloat r) = Some r"
| "py_number (PyBool b) = Some (if b then 1 else 0)"
| "py_number ob = None"

text \<open>The receipt at an address of the receipt heap.\<close>

definition receipt_at :: "link \<Rightarrow> nat \<Rightarrow> request_receipt option" where
  "receipt_at l a = (if a < length (receipts l) then Some (receipts l ! a) else None)"

text \<open>The tail of \<open>Link.handle_request\<close>, once the handler has returned \<open>resp\<close>: a file
  response or a response too large for one packet goes out as a Resource, any other as a
  \<open>RESPONSE\<close> packet.\<close>

definition handle_request_respond ::
    "env \<Rightarrow> link \<Rightarrow> bytes \<Rightarrow> pyobj \<Rightarrow> event list \<Rightarrow> link \<times> event list \<times> error option" where
  "handle_request_respond e l rid resp ev0 =
     (let file_handle = (case resp of PyList (PyFile f # rest) \<Rightarrow> Some (PyFile f) | _ \<Rightarrow> None)
      in if resp \<noteq> PyNone
         then
           (case file_handle of
              Some fh \<Rightarrow> (l, ev0 @ [ResourceNew fh (Some rid) True], None)
            | None \<Rightarrow>
                (case packb e (PyList [PyBytes rid, resp]) of
                   None \<Rightarrow> (l, ev0, Some TypeError)
                 | Some packed_response \<Rightarrow>
                     (case mdu l of
                        None \<Rightarrow> (l, ev0, Some AttributeError)
                      | Some m \<Rightarrow>
                          if int (length packed_response) \<le> m
                          then (l, ev0 @ [Send DATA RESPONSE packed_response], None)
                          else (l, ev0 @ [ResourceNew (PyBytes packed_response) (Some rid) True],
                                None))))
         else (l, ev0, None))"

text \<open>\<open>Link.handle_request(request_id, unpacked_request)\<close>.\<close>

definition handle_request ::
    "env \<Rightarrow> link \<Rightarrow> bytes \<Rightarrow> pyobj \<Rightarrow> link \<times> event list \<times> error option" where
  "handle_request e l rid unpacked_request =
     (if status l = ACTIVE
      then
        (case py_index unpacked_request 0 of
           Inl err \<Rightarrow> (l, [], Some err)
         | Inr requested_at \<Rightarrow>
        (case py_index unpacked_request 1 of
           Inl err \<Rightarrow> (l, [], Some err)
         | Inr path_hash \<Rightarrow>
        (case py_index unpacked_request 2 of
           Inl err \<Rightarrow> (l, [], Some err)
         | Inr request_data \<Rightarrow>
        (case destination l of
           None \<Rightarrow> (l, [], Some AttributeError)
         | Some d \<Rightarrow>
        (case path_hash of
           PyList xs \<Rightarrow> (l, [], Some TypeError)
         | _ \<Rightarrow>
        (case (case path_hash of PyBytes b \<Rightarrow> map_of (request_handlers d) b | _ \<Rightarrow> None) of
           None \<Rightarrow> (l, [], None)
         | Some h \<Rightarrow>
             (let allowed =
                    (rh_allow h \<noteq> ALLOW_NONE
                     \<and> (if rh_allow h = ALLOW_LIST
                         then (case remote_identity l of
                                 None \<Rightarrow> False
                               | Some pk \<Rightarrow> identity_truncated_hash e pk \<in> set (rh_allowed_list h))
                         else rh_allow h = ALLOW_ALL));
                  ident = (case remote_identity l of None \<Rightarrow> PyNone | Some pk \<Rightarrow> PyBytes pk)
              in if allowed
                 then
                   (case (if rh_parameters h = 5
                          then rh_response_generator h
                                 [PyStr (rh_path h), request_data, PyBytes rid, ident, requested_at]
                          else if rh_parameters h = 6
                          then rh_response_generator h
                                 [PyStr (rh_path h), request_data, PyBytes rid, PyBytes (link_id l),
                                  ident, requested_at]
                          else Inl TypeError) of
                      Inl err \<Rightarrow> (l, [Log LOG_DEBUG (HandlingRequest rid)], Some err)
                    | Inr resp \<Rightarrow>
                        handle_request_respond e l rid resp [Log LOG_DEBUG (HandlingRequest rid)])
                 else (l, [Log LOG_DEBUG (RequestNotAllowed rid)], None))))))))
      else (l, [], None))"



text \<open>\<open>RequestReceipt.response_received\<close> on the receipt at address \<open>a\<close>.\<close>

definition response_received ::
    "real \<Rightarrow> nat \<Rightarrow> request_receipt \<Rightarrow> pyobj \<Rightarrow> pyobj option \<Rightarrow> request_receipt \<times> event list" where
  "response_received now a r resp md =
     (if rstatus r \<noteq> FAILED
      then
        (let r1 = r\<lparr>progress := 1\<rparr>;
             r2 = r1\<lparr>response := Some resp\<rparr>;
             r3 = r2\<lparr>metadata := md\<rparr>;
             r4 = r3\<lparr>rstatus := READY\<rparr>;
             r5 = r4\<lparr>response_concluded_at := Some now\<rparr>;
             (r6, ev1) = (case packet_receipt r5 of
                            None \<Rightarrow> (r5, [])
                          | Some pr \<Rightarrow>
                              (r5\<lparr>packet_receipt := Some (pr\<lparr>pr_delivered := True,
                                      pr_proved := True, pr_concluded_at := Some now\<rparr>)\<rparr>,
                               if pr_delivery_callback pr then [Callback (CbReceiptDelivery a)]
                               else []));
             ev2 = (if cb_progress r6 then [Callback (CbReceiptProgress a)] else []);
             ev3 = (if cb_response r6 then [Callback (CbReceiptResponse a)] else [])
         in (r6, ev1 @ ev2 @ ev3))
      else (r, []))"

text \<open>\<open>RequestReceipt.response_resource_progress(resource)\<close> for a resource with hash \<open>h\<close>
  and progress \<open>prog\<close>.\<close>

definition response_resource_progress ::
    "real \<Rightarrow> nat \<Rightarrow> request_receipt \<Rightarrow> bytes \<Rightarrow> real \<Rightarrow> request_receipt \<times> event list" where
  "response_resource_progress now a r h prog =
     (if rstatus r \<noteq> FAILED
      then
        (let r1 = r\<lparr>rstatus := RECEIVING\<rparr>;
             (r2, ev1) = (case packet_receipt r1 of
                            None \<Rightarrow> (r1, [])
                          | Some pr \<Rightarrow>
                              if \<not> pr_delivered pr
                              then (r1\<lparr>packet_receipt := Some (pr\<lparr>pr_delivered := True,
                                          pr_proved := True, pr_concluded_at := Some now\<rparr>)\<rparr>,
                                    if pr_delivery_callback pr
                                    then [Callback (CbReceiptDelivery a)] else [])
                              else (r1, []));
             r3 = r2\<lparr>progress := prog\<rparr>;
             ev2 = (if cb_progress r3 then [Callback (CbReceiptProgress a)] else [])
         in (r3, ev1 @ ev2))
      else (r, [ResourceCancel h]))"

text \<open>Python's \<open>list.remove(x)\<close>: the first occurrence goes, \<open>ValueError\<close> when there is
  none.\<close>

definition list_remove :: "'a \<Rightarrow> 'a list \<Rightarrow> error + 'a list" where
  "list_remove x xs = (if x \<in> set xs then Inr (remove1 x xs) else Inl ValueError)"

text \<open>\<open>Link.handle_response\<close>.  The loop stops at the first pending receipt whose
  \<open>request_id\<close> equals the given one; the receipt is removed from \<open>pending_requests\<close> only
  if it is (still) a member.\<close>

definition handle_response ::
    "real \<Rightarrow> link \<Rightarrow> pyobj \<Rightarrow> pyobj \<Rightarrow> int \<Rightarrow> int \<Rightarrow> pyobj option \<Rightarrow> link \<times> event list" where
  "handle_response now l rid response_data rsize rtsize md =
     (if status l = ACTIVE
      then
        (case find (\<lambda>a. case receipt_at l a of
                           None \<Rightarrow> False
                         | Some r \<Rightarrow> PyBytes (request_id r) = rid) (pending_requests l) of
           None \<Rightarrow> (l, [])
         | Some a \<Rightarrow>
             (case receipt_at l a of
                None \<Rightarrow> (l, [])
              | Some r \<Rightarrow>
                  (let r1 = r\<lparr>response_size := Some rsize\<rparr>;
                       r2 = (if response_transfer_size r1 = None
                             then r1\<lparr>response_transfer_size := Some 0\<rparr> else r1);
                       r3 = r2\<lparr>response_transfer_size :=
                                  map_option (\<lambda>x. x + rtsize) (response_transfer_size r2)\<rparr>;
                       (r4, ev) = response_received now a r3 response_data md;
                       l1 = l\<lparr>receipts := (receipts l)[a := r4]\<rparr>
                   in if a \<in> set (pending_requests l1)
                      then (case list_remove a (pending_requests l1) of
                              Inl err \<Rightarrow> (l1, ev)
                            | Inr ps \<Rightarrow> (l1\<lparr>pending_requests := ps\<rparr>, ev))
                      else (l1, ev))))
      else (l, []))"

text \<open>\<open>RequestReceipt.request_timed_out\<close> on the receipt at address \<open>a\<close>: the status is set
  to \<open>FAILED\<close> first, then the receipt is removed from \<open>link.pending_requests\<close> with no
  membership test, then the \<open>failed\<close> callback runs.  The third component is the uncaught
  exception.\<close>

definition request_timed_out :: "real \<Rightarrow> nat \<Rightarrow> link \<Rightarrow> link \<times> event list \<times> error option" where
  "request_timed_out now a l =
     (case receipt_at l a of
        None \<Rightarrow> (l, [], Some AttributeError)
      | Some r \<Rightarrow>
          (let r1 = r\<lparr>rstatus := FAILED\<rparr>;
               r2 = r1\<lparr>concluded_at := Some now\<rparr>;
               l1 = l\<lparr>receipts := (receipts l)[a := r2]\<rparr>
           in case list_remove a (pending_requests l1) of
                Inl err \<Rightarrow> (l1, [], Some err)
              | Inr ps \<Rightarrow>
                  (l1\<lparr>pending_requests := ps\<rparr>,
                   if cb_failed r2 then [Callback (CbReceiptFailed a)] else [],
                   None)))"

section \<open>The packet dispatcher\<close>

text \<open>\<open>Link.rtt_packet\<close>.  An exception in the body is logged and the Link is torn down.\<close>

definition rtt_packet_body ::
    "env \<Rightarrow> real \<Rightarrow> link \<Rightarrow> bytes \<Rightarrow> link \<times> event list \<times> error option" where
  "rtt_packet_body e now l plaintext =
     (case unpackb e plaintext of
        None \<Rightarrow> (l, [], Some UnpackError)
      | Some ob \<Rightarrow>
          (case py_number ob of
             None \<Rightarrow> (l, [], Some TypeError)
           | Some peer_rtt \<Rightarrow>
               (let measured_rtt = now - request_time l;
                    l1 = l\<lparr>rtt := Some (max measured_rtt peer_rtt)\<rparr>;
                    l2 = l1\<lparr>status := ACTIVE\<rparr>;
                    l3 = l2\<lparr>activated_at := Some now\<rparr>;
                    l4 = (if max measured_rtt peer_rtt > 0 \<and> establishment_cost l3 > 0
                          then l3\<lparr>establishment_rate :=
                                 Some (real_of_int (establishment_cost l3)
                                         / max measured_rtt peer_rtt)\<rparr>
                          else l3)
                in case Link__update_keepalive l4 of
                     Inl err \<Rightarrow> (l4, [], Some err)
                   | Inr l5 \<Rightarrow>
                       (l5,
                        (case owner_link_established l5 of
                           None \<Rightarrow> [Log LOG_ERROR EstablishedCallbackError]
                         | Some cb \<Rightarrow> if cb then [Callback CbOwnerLinkEstablished] else []),
                        None))))"

definition rtt_packet :: "env \<Rightarrow> real \<Rightarrow> link \<Rightarrow> packet \<Rightarrow> link \<times> event list" where
  "rtt_packet e now l p =
     (let (l1, ev1, plaintext) = decrypt e l (data p)
      in case plaintext of
           None \<Rightarrow> (l1, ev1)
         | Some pt \<Rightarrow>
             (case rtt_packet_body e now l1 pt of
                (l2, ev2, None) \<Rightarrow> (l2, ev1 @ ev2)
              | (l2, ev2, Some err) \<Rightarrow>
                  (let (l3, ev3) = teardown now l2
                   in (l3, ev1 @ ev2 @ [Log LOG_ERROR (RttPacketError err)] @ ev3))))"

text \<open>The handlers of \<open>Link.receive\<close>, one per branch of its \<open>if\<close>/\<open>elif\<close> chain on the
  packet context.  Each returns the Link, what it did, and the exception that escapes it.\<close>

definition recv_none ::
    "env \<Rightarrow> real \<Rightarrow> link \<Rightarrow> packet \<Rightarrow> link \<times> event list \<times> error option" where
  "recv_none e now l p =
     (let (l1, ev1, plaintext) = decrypt e l (data p)
      in case plaintext of
           None \<Rightarrow> (l1, ev1, None)
         | Some pt \<Rightarrow>
             (let l2 = Link__update_phy_stats e l1 p True False;
                  ev2 = (if callbacks_packet l2 then [Callback (CbPacket pt)] else [])
              in case destination l2 of
                   None \<Rightarrow> (l2, ev1 @ ev2, Some AttributeError)
                 | Some d \<Rightarrow>
                     if proof_strategy d = PROVE_ALL
                     then (case prove_packet e now l2 p of
                             (l3, ev3, r) \<Rightarrow> (l3, ev1 @ ev2 @ ev3, r))
                     else if proof_strategy d = PROVE_APP
                     then (case proof_requested d of
                             None \<Rightarrow> (l2, ev1 @ ev2, None)
                           | Some f \<Rightarrow>
                               (case f p of
                                  None \<Rightarrow> (l2, ev1 @ ev2 @ [Log LOG_ERROR ProofRequestCallbackError],
                                            None)
                                | Some wanted \<Rightarrow>
                                    if wanted
                                    then (case prove_packet e now l2 p of
                                            (l3, ev3, None) \<Rightarrow> (l3, ev1 @ ev2 @ ev3, None)
                                          | (l3, ev3, Some err) \<Rightarrow>
                                              (l3, ev1 @ ev2 @ ev3
                                                   @ [Log LOG_ERROR ProofRequestCallbackError],
                                               None))
                                    else (l2, ev1 @ ev2, None)))
                     else (l2, ev1 @ ev2, None)))"

definition recv_linkidentify :: "env \<Rightarrow> link \<Rightarrow> packet \<Rightarrow> link \<times> event list \<times> error option" where
  "recv_linkidentify e l p =
     (let (l1, ev1, plaintext) = decrypt e l (data p)
      in case plaintext of
           None \<Rightarrow> (l1, ev1, None)
         | Some pt \<Rightarrow>
             if \<not> initiator l1
                \<and> length pt = IDENTITY_KEYSIZE e div 8 + SIGLENGTH e div 8
             then
               (let public_key = take (IDENTITY_KEYSIZE e div 8) pt;
                    signed_data = link_id l1 @ public_key;
                    signature = take (SIGLENGTH e div 8) (drop (IDENTITY_KEYSIZE e div 8) pt)
                in if identity_validate e public_key signature signed_data
                   then
                     (let l2 = l1\<lparr>remote_identity := Some public_key\<rparr>;
                          ev2 = (if callbacks_remote_identified l2
                                 then [Callback (CbRemoteIdentified public_key)] else [])
                      in (Link__update_phy_stats e l2 p True False, ev1 @ ev2, None))
                   else (l1, ev1, None))
             else (l1, ev1, None))"

definition recv_request :: "env \<Rightarrow> link \<Rightarrow> packet \<Rightarrow> link \<times> event list \<times> error option" where
  "recv_request e l p =
     (let (l1, ev1, packed_request) = decrypt e l (data p)
      in case packed_request of
           None \<Rightarrow> (l1, ev1, None)
         | Some pr \<Rightarrow>
             (case unpackb e pr of
                None \<Rightarrow> (l1, ev1 @ [Log LOG_ERROR (HandlingRequestError UnpackError)], None)
              | Some unpacked_request \<Rightarrow>
                  (case handle_request e l1 (truncated_hash p) unpacked_request of
                     (l2, ev2, Some err) \<Rightarrow>
                       (l2, ev1 @ ev2 @ [Log LOG_ERROR (HandlingRequestError err)], None)
                   | (l2, ev2, None) \<Rightarrow>
                       (Link__update_phy_stats e l2 p True False, ev1 @ ev2, None))))"

definition recv_response ::
    "env \<Rightarrow> real \<Rightarrow> link \<Rightarrow> packet \<Rightarrow> link \<times> event list \<times> error option" where
  "recv_response e now l p =
     (let (l1, ev1, packed_response) = decrypt e l (data p)
      in case packed_response of
           None \<Rightarrow> (l1, ev1, None)
         | Some pr \<Rightarrow>
             (case unpackb e pr of
                None \<Rightarrow> (l1, ev1 @ [Log LOG_ERROR (HandlingResponseError UnpackError)], None)
              | Some unpacked_response \<Rightarrow>
                  (case py_index unpacked_response 0 of
                     Inl err \<Rightarrow> (l1, ev1 @ [Log LOG_ERROR (HandlingResponseError err)], None)
                   | Inr rid \<Rightarrow>
                  (case py_index unpacked_response 1 of
                     Inl err \<Rightarrow> (l1, ev1 @ [Log LOG_ERROR (HandlingResponseError err)], None)
                   | Inr response_data \<Rightarrow>
                  (case packb e response_data of
                     None \<Rightarrow> (l1, ev1 @ [Log LOG_ERROR (HandlingResponseError TypeError)], None)
                   | Some packed \<Rightarrow>
                       (let transfer_size = int (length packed) - 2;
                            (l2, ev2) = handle_response now l1 rid response_data
                                          transfer_size transfer_size None
                        in (Link__update_phy_stats e l2 p True False, ev1 @ ev2, None)))))))"

definition recv_lrrtt ::
    "env \<Rightarrow> real \<Rightarrow> link \<Rightarrow> packet \<Rightarrow> link \<times> event list \<times> error option" where
  "recv_lrrtt e now l p =
     (if \<not> initiator l
      then (let (l1, ev1) = rtt_packet e now l p
            in (Link__update_phy_stats e l1 p True False, ev1, None))
      else (l, [], None))"

definition recv_linkclose :: "env \<Rightarrow> link \<Rightarrow> packet \<Rightarrow> link \<times> event list \<times> error option" where
  "recv_linkclose e l p =
     (let (l1, ev1) = teardown_packet e l p
      in (Link__update_phy_stats e l1 p True False, ev1, None))"

text \<open>The loop of the \<open>RESOURCE_ADV\<close> branch over \<open>pending_requests\<close>, for an advertisement
  that is a response to request \<open>rid\<close>.\<close>

fun adv_response_loop ::
    "env \<Rightarrow> real \<Rightarrow> bytes \<Rightarrow> bytes \<Rightarrow> nat list \<Rightarrow> link \<Rightarrow> link \<times> event list" where
  "adv_response_loop e now pt rid [] l = (l, [])"
| "adv_response_loop e now pt rid (a # as) l =
     (case receipt_at l a of
        None \<Rightarrow> adv_response_loop e now pt rid as l
      | Some r \<Rightarrow>
          if request_id r = rid
          then
            (case resource_accept e pt of
               None \<Rightarrow>
                 (let (l2, ev2) = adv_response_loop e now pt rid as l
                  in (l2, [ResourceAccept pt] @ ev2))
             | Some (h, prog) \<Rightarrow>
                 (let r1 = (if response_size r = None
                            then r\<lparr>response_size := Some (adv_read_size e pt)\<rparr> else r);
                      r2 = (if response_transfer_size r1 = None
                            then r1\<lparr>response_transfer_size := Some 0\<rparr> else r1);
                      r3 = r2\<lparr>response_transfer_size :=
                                 map_option (\<lambda>x. x + adv_read_transfer_size e pt)
                                   (response_transfer_size r2)\<rparr>;
                      r4 = (if started_at r3 = None then r3\<lparr>started_at := Some now\<rparr> else r3);
                      (r5, ev1) = response_resource_progress now a r4 h prog;
                      l1 = l\<lparr>receipts := (receipts l)[a := r5]\<rparr>;
                      (l2, ev2) = adv_response_loop e now pt rid as l1
                  in (l2, [ResourceAccept pt] @ ev1 @ ev2)))
          else adv_response_loop e now pt rid as l)"

definition recv_resource_adv ::
    "env \<Rightarrow> real \<Rightarrow> link \<Rightarrow> packet \<Rightarrow> link \<times> event list \<times> error option" where
  "recv_resource_adv e now l p =
     (let (l1, ev1, plaintext) = decrypt e l (data p)
      in case plaintext of
           None \<Rightarrow> (l1, ev1, None)
         | Some pt \<Rightarrow>
             (let l2 = Link__update_phy_stats e l1 p True False
              in if adv_is_request e pt then (l2, ev1 @ [ResourceAccept pt], None)
                 else if adv_is_response e pt
                 then (let (l3, ev2) = adv_response_loop e now pt (adv_read_request_id e pt)
                                         (pending_requests l2) l2
                       in (l3, ev1 @ ev2, None))
                 else if resource_strategy l2 = ACCEPT_NONE then (l2, ev1, None)
                 else if resource_strategy l2 = ACCEPT_APP
                 then (case callbacks_resource l2 of
                         None \<Rightarrow> (l2, ev1, None)
                       | Some decide \<Rightarrow>
                           (case adv_unpack e pt of
                              None \<Rightarrow> (l2, ev1 @ [Log LOG_ERROR ResourceCallbackError], None)
                            | Some adv \<Rightarrow>
                                (case decide adv of
                                   None \<Rightarrow> (l2, ev1 @ [Log LOG_ERROR ResourceCallbackError], None)
                                 | Some accepted \<Rightarrow>
                                     if accepted then (l2, ev1 @ [ResourceAccept pt], None)
                                     else (l2, ev1 @ [ResourceReject pt], None))))
                 else if resource_strategy l2 = ACCEPT_ALL
                 then (l2, ev1 @ [ResourceAccept pt], None)
                 else (l2, ev1, None)))"

definition recv_resource_req :: "env \<Rightarrow> link \<Rightarrow> packet \<Rightarrow> link \<times> event list \<times> error option" where
  "recv_resource_req e l p =
     (let (l1, ev1, plaintext) = decrypt e l (data p)
      in case plaintext of
           None \<Rightarrow> (l1, ev1, None)
         | Some pt \<Rightarrow>
             (let l2 = Link__update_phy_stats e l1 p True False
              in if pt = [] then (l2, ev1, Some TypeError)
                 else
                   (let resource_hash =
                          (if pt ! 0 = HASHMAP_IS_EXHAUSTED e
                           then take (HASHLENGTH e div 8) (drop (1 + MAPHASH_LEN e) pt)
                           else take (HASHLENGTH e div 8) (drop 1 pt));
                        hit = (\<lambda>r. res_hash r = resource_hash
                                    \<and> packet_hash p \<notin> set (req_hashlist r));
                        l3 = l2\<lparr>outgoing_resources :=
                                map (\<lambda>r. if hit r
                                         then r\<lparr>req_hashlist := req_hashlist r @ [packet_hash p]\<rparr>
                                         else r) (outgoing_resources l2)\<rparr>;
                        ev2 = map (\<lambda>r. ResourceRequest (res_hash r) pt)
                                (filter hit (outgoing_resources l2))
                    in (l3, ev1 @ ev2, None))))"

definition recv_resource_hmu :: "env \<Rightarrow> link \<Rightarrow> packet \<Rightarrow> link \<times> event list \<times> error option" where
  "recv_resource_hmu e l p =
     (let (l1, ev1, plaintext) = decrypt e l (data p)
      in case plaintext of
           None \<Rightarrow> (l1, ev1, None)
         | Some pt \<Rightarrow>
             (let l2 = Link__update_phy_stats e l1 p True False;
                  resource_hash = take (HASHLENGTH e div 8) pt;
                  ev2 = map (\<lambda>r. ResourceHashmapUpdate (res_hash r) pt)
                          (filter (\<lambda>r. resource_hash = res_hash r) (incoming_resources l2))
              in (l2, ev1 @ ev2, None)))"

definition recv_resource_icl :: "env \<Rightarrow> link \<Rightarrow> packet \<Rightarrow> link \<times> event list \<times> error option" where
  "recv_resource_icl e l p =
     (let (l1, ev1, plaintext) = decrypt e l (data p)
      in case plaintext of
           None \<Rightarrow> (l1, ev1, None)
         | Some pt \<Rightarrow>
             (let l2 = Link__update_phy_stats e l1 p True False;
                  resource_hash = take (HASHLENGTH e div 8) pt;
                  ev2 = map (\<lambda>r. ResourceCancel (res_hash r))
                          (filter (\<lambda>r. resource_hash = res_hash r) (incoming_resources l2))
              in (l2, ev1 @ ev2, None)))"

definition recv_resource_rcl :: "env \<Rightarrow> link \<Rightarrow> packet \<Rightarrow> link \<times> event list \<times> error option" where
  "recv_resource_rcl e l p =
     (let (l1, ev1, plaintext) = decrypt e l (data p)
      in case plaintext of
           None \<Rightarrow> (l1, ev1, None)
         | Some pt \<Rightarrow>
             (let l2 = Link__update_phy_stats e l1 p True False;
                  resource_hash = take (HASHLENGTH e div 8) pt;
                  ev2 = map (\<lambda>r. ResourceRejected (res_hash r))
                          (filter (\<lambda>r. resource_hash = res_hash r) (outgoing_resources l2))
              in (l2, ev1 @ ev2, None)))"

definition recv_keepalive :: "real \<Rightarrow> link \<Rightarrow> packet \<Rightarrow> link \<times> event list \<times> error option" where
  "recv_keepalive now l p =
     (if \<not> initiator l \<and> data p = [0xFF]
      then (had_outbound now True l, [Send DATA KEEPALIVE_CTX [0xFE]], None)
      else (l, [], None))"

definition recv_resource :: "env \<Rightarrow> link \<Rightarrow> packet \<Rightarrow> link \<times> event list \<times> error option" where
  "recv_resource e l p =
     (if incoming_resources l = [] then (l, [], None)
      else (Link__update_phy_stats e l p True False,
            map (\<lambda>r. ResourceReceivePart (res_hash r) (data p)) (incoming_resources l), None))"

text \<open>The \<open>CHANNEL\<close> branch proves the packet before it decrypts it; an exception of
  \<open>packet.prove()\<close> escapes before the decryption.\<close>

definition recv_channel ::
    "env \<Rightarrow> real \<Rightarrow> link \<Rightarrow> packet \<Rightarrow> link \<times> event list \<times> error option" where
  "recv_channel e now l p =
     (if \<not> channel l then (l, [Log LOG_DEBUG ChannelDataWithoutChannel], None)
      else
        (case prove_packet e now l p of
           (l0, ev0, Some err) \<Rightarrow> (l0, ev0, Some err)
         | (l0, ev0, None) \<Rightarrow>
             (let (l1, ev1, plaintext) = decrypt e l0 (data p)
              in case plaintext of
                   None \<Rightarrow> (l1, ev0 @ ev1, None)
                 | Some pt \<Rightarrow>
                     (Link__update_phy_stats e l1 p True False,
                      ev0 @ ev1 @ [ChannelReceive pt], None))))"

definition recv_resource_prf :: "env \<Rightarrow> link \<Rightarrow> packet \<Rightarrow> link \<times> event list \<times> error option" where
  "recv_resource_prf e l p =
     (let resource_hash = take (HASHLENGTH e div 8) (data p);
          hits = filter (\<lambda>r. resource_hash = res_hash r) (outgoing_resources l)
      in if hits = [] then (l, [], None)
         else (Link__update_phy_stats e l p True False,
               map (\<lambda>r. ResourceValidateProof (res_hash r) (data p)) hits, None))"

text \<open>The dispatch of \<open>Link.receive\<close> on packet type and context.\<close>

definition receive_dispatch ::
    "env \<Rightarrow> real \<Rightarrow> link \<Rightarrow> packet \<Rightarrow> link \<times> event list \<times> error option" where
  "receive_dispatch e now l p =
     (if packet_type p = DATA
      then
        (case pcontext p of
           NONE \<Rightarrow> recv_none e now l p
         | LINKIDENTIFY \<Rightarrow> recv_linkidentify e l p
         | REQUEST \<Rightarrow> recv_request e l p
         | RESPONSE \<Rightarrow> recv_response e now l p
         | LRRTT \<Rightarrow> recv_lrrtt e now l p
         | LINKCLOSE \<Rightarrow> recv_linkclose e l p
         | RESOURCE_ADV \<Rightarrow> recv_resource_adv e now l p
         | RESOURCE_REQ \<Rightarrow> recv_resource_req e l p
         | RESOURCE_HMU \<Rightarrow> recv_resource_hmu e l p
         | RESOURCE_ICL \<Rightarrow> recv_resource_icl e l p
         | RESOURCE_RCL \<Rightarrow> recv_resource_rcl e l p
         | KEEPALIVE_CTX \<Rightarrow> recv_keepalive now l p
         | RESOURCE \<Rightarrow> recv_resource e l p
         | CHANNEL \<Rightarrow> recv_channel e now l p
         | _ \<Rightarrow> (l, [], None))
      else if packet_type p = PROOF
      then (if pcontext p = RESOURCE_PRF then recv_resource_prf e l p else (l, [], None))
      else (l, [], None))"

text \<open>The bookkeeping \<open>Link.receive\<close> does for every packet that passes its two guards,
  before any decryption.\<close>

definition receive_accounting :: "real \<Rightarrow> link \<Rightarrow> packet \<Rightarrow> link" where
  "receive_accounting now l p =
     (let l1 = l\<lparr>last_inbound := now\<rparr>;
          l2 = (if pcontext p \<noteq> KEEPALIVE_CTX then l1\<lparr>last_data := last_inbound l1\<rparr> else l1);
          l3 = l2\<lparr>rx := rx l2 + 1\<rparr>;
          l4 = l3\<lparr>rxbytes := rxbytes l3 + int (length (data p))\<rparr>
      in if status l4 = STALE then l4\<lparr>status := ACTIVE\<rparr> else l4)"

text \<open>\<open>Link.receive(packet)\<close> at time \<open>now\<close>.  An exception that escapes the dispatch leaves
  \<open>watchdog_lock\<close> raised.\<close>

definition receive :: "env \<Rightarrow> real \<Rightarrow> link \<Rightarrow> packet \<Rightarrow> link \<times> event list \<times> error option" where
  "receive e now l p =
     (let l0 = l\<lparr>watchdog_lock := True\<rparr>
      in if status l0 \<noteq> CLOSED
            \<and> \<not> (initiator l0 \<and> pcontext p = KEEPALIVE_CTX \<and> data p = [0xFF])
         then
           (if receiving_interface p \<noteq> attached_interface l0
            then (l0\<lparr>watchdog_lock := False\<rparr>,
                  [Log LOG_ERROR (UnexpectedInterface (receiving_interface p)
                     (attached_interface l0))],
                  None)
            else
              (case receive_dispatch e now (receive_accounting now l0 p) p of
                 (l1, ev, None) \<Rightarrow> (l1\<lparr>watchdog_lock := False\<rparr>, ev, None)
               | (l1, ev, Some err) \<Rightarrow> (l1, ev, Some err)))
         else (l0\<lparr>watchdog_lock := False\<rparr>, [], None))"

section \<open>The watchdog\<close>

text \<open>
  One pass through the body of the outer loop of \<open>Link.__watchdog_job\<close> at time \<open>now\<close>.
  \<open>None\<close>: the loop condition fails (the Link is \<open>CLOSED\<close>) and the thread ends.  Otherwise
  the Link, what was done, and either the time slept or the exception that kills the thread.
  While \<open>watchdog_lock\<close> is raised the pass only waits.
\<close>

definition watchdog_timing_check ::
    "real \<Rightarrow> link \<Rightarrow> event list \<Rightarrow> real \<Rightarrow> link \<times> event list \<times> (error + real)" where
  "watchdog_timing_check now l ev sleep_time =
     (let ev1 = (if sleep_time = 0 then [Log LOG_ERROR WatchdogSleepZero] else []);
          (l1, ev2, sleep_time1) =
             (if sleep_time < 0
              then (let (l', ev') = teardown now l
                    in (l', [Log LOG_ERROR TimingErrorTearingDown] @ ev', 0.1))
              else (l, [], sleep_time));
          sleep_time2 = min sleep_time1 WATCHDOG_MAX_SLEEP;
          l2 = (if \<not> track_phy_stats l1 then l1\<lparr>rssi := None, snr := None, q := None\<rparr> else l1)
      in (l2, ev @ ev1 @ ev2, Inr sleep_time2))"

definition watchdog_job_step ::
    "real \<Rightarrow> link \<Rightarrow> (link \<times> event list \<times> (error + real)) option" where
  "watchdog_job_step now l =
     (if status l = CLOSED then None
      else if watchdog_lock l
      then Some (l, [], Inr (max (case rtt l of None \<Rightarrow> 0.025
                                   | Some r \<Rightarrow> if r \<noteq> 0 then r else 0.025) 0.025))
      else if status l = PENDING
      then
        (if now \<ge> request_time l + establishment_timeout l
         then (let l1 = l\<lparr>status := CLOSED\<rparr>;
                   l2 = l1\<lparr>teardown_reason := Some TIMEOUT\<rparr>;
                   (l3, ev) = link_closed l2
               in Some (watchdog_timing_check now l3
                          ([Log LOG_VERBOSE EstablishmentTimedOut] @ ev) 0.001))
         else Some (watchdog_timing_check now l []
                      (request_time l + establishment_timeout l - now)))
      else if status l = HANDSHAKE
      then
        (if now \<ge> request_time l + establishment_timeout l
         then (let l1 = l\<lparr>status := CLOSED\<rparr>;
                   l2 = l1\<lparr>teardown_reason := Some TIMEOUT\<rparr>;
                   (l3, ev) = link_closed l2
               in Some (watchdog_timing_check now l3
                          (ev @ [Log LOG_DEBUG (if initiator l3 then TimeoutWaitingForProof
                                                else TimeoutWaitingForRtt)]) 0.001))
         else Some (watchdog_timing_check now l []
                      (request_time l + establishment_timeout l - now)))
      else if status l = ACTIVE
      then
        (let activated = (case activated_at l of None \<Rightarrow> 0 | Some t \<Rightarrow> t);
             last_in = max (max (last_inbound l) (last_proof l)) activated
         in if now \<ge> last_in + keepalive l
            then
              (let (l1, ev1) = (if initiator l \<and> now \<ge> last_keepalive l + keepalive l
                                then send_keepalive now l else (l, []))
               in if now \<ge> last_in + stale_time l1
                  then (case rtt l1 of
                          None \<Rightarrow> Some (l1, ev1, Inl TypeError)
                        | Some r \<Rightarrow>
                            Some (watchdog_timing_check now (l1\<lparr>status := STALE\<rparr>) ev1
                                    (r * keepalive_timeout_factor l1 + STALE_GRACE)))
                  else Some (watchdog_timing_check now l1 ev1 (keepalive l1)))
            else Some (watchdog_timing_check now l [] (last_in + keepalive l - now)))
      else
        (let (l1, ev1) = Link__teardown_packet now l;
             l2 = l1\<lparr>status := CLOSED\<rparr>;
             l3 = l2\<lparr>teardown_reason := Some TIMEOUT\<rparr>;
             (l4, ev2) = link_closed l3
         in Some (watchdog_timing_check now l4 (ev1 @ ev2) 0.001)))"


section \<open>Example configuration\<close>

text \<open>A concrete environment with the constants of the reference stack (MTU 500, minimal
  header 19, maximal header 35, IFAC 1, token overhead 48, block size 16, 512-bit signatures and
  keys) and toy stand-ins for the primitives: a signature is valid when it is sixty-four bytes
  \<open>0x2A\<close>, a ciphertext decrypts when it starts with \<open>0x01\<close>.\<close>

definition example_env :: env where
  "example_env = \<lparr>
     Reticulum_MTU = 500, HEADER_MINSIZE = 19, HEADER_MAXSIZE = 35, IFAC_MIN_SIZE = 1,
     TOKEN_OVERHEAD = 48, AES128_BLOCKSIZE = 16, SIGLENGTH = 512, IDENTITY_KEYSIZE = 512,
     HASHLENGTH = 256, MAPHASH_LEN = 4, HASHMAP_IS_EXHAUSTED = 0xFF,
     RESPONSE_MAX_GRACE_TIME = 10,
     x25519_from_public_bytes = (\<lambda>b. if length b = 32 then Some b else None),
     ed25519_from_public_bytes = (\<lambda>b. if length b = 32 then Some b else None),
     exchange = (\<lambda>prv peer. Some (prv @ peer)),
     hkdf = (\<lambda>n ikm salt. Some (take n (ikm @ salt))),
     token_new = (\<lambda>k. k),
     token_decrypt = (\<lambda>k c. if take 1 c = [0x01] then Some (drop 1 c) else None),
     sign = (\<lambda>k msg. Some (replicate 64 0x2A)),
     identity_validate = (\<lambda>pk sg msg. sg = replicate 64 0x2A),
     identity_truncated_hash = (\<lambda>b. take 16 b),
     packb = (\<lambda>ob. case ob of PyBytes b \<Rightarrow> Some b | PyList xs \<Rightarrow> Some [0x93] | _ \<Rightarrow> None),
     unpackb = (\<lambda>b. Some (PyBytes b)),
     adv_is_request = (\<lambda>b. False), adv_is_response = (\<lambda>b. False),
     adv_read_request_id = (\<lambda>b. take 16 b), adv_read_size = (\<lambda>b. 0),
     adv_read_transfer_size = (\<lambda>b. 0), adv_unpack = (\<lambda>b. Some b),
     resource_accept = (\<lambda>b. None),
     get_packet_rssi = (\<lambda>h. None), get_packet_snr = (\<lambda>h. None), get_packet_q = (\<lambda>h. None)\<rparr>"

text \<open>An initiator Link as the constructor leaves it after sending its link request at time
  100, with a \<open>link_closed\<close> callback registered.\<close>

definition example_link :: link where
  "example_link = \<lparr>
     mode = MODE_AES256_CBC, rtt = None, mtu = 500, mdu = None,
     establishment_cost = 83, establishment_rate = None,
     callbacks_link_established = False, callbacks_link_closed = True,
     callbacks_packet = False, callbacks_resource = None, callbacks_remote_identified = False,
     resource_strategy = ACCEPT_NONE, outgoing_resources = [], incoming_resources = [],
     pending_requests = [], receipts = [],
     last_inbound = 0, last_outbound = 100, last_keepalive = 0, last_proof = 0, last_data = 100,
     tx = 0, rx = 0, txbytes = 0, rxbytes = 0, rssi = None, snr = None, q = None,
     traffic_timeout_factor = TRAFFIC_TIMEOUT_FACTOR,
     keepalive_timeout_factor = KEEPALIVE_TIMEOUT_FACTOR,
     keepalive = KEEPALIVE, stale_time = STALE_TIME, watchdog_lock = False,
     status = PENDING, activated_at = None, owner_link_established = None,
     destination = Some \<lparr>direction = OUT, links_has_self = False, proof_strategy = PROVE_NONE,
       proof_requested = None, identity_public_key = replicate 32 0x0A @ replicate 32 0x0B,
       request_handlers = []\<rparr>,
     attached_interface = None, remote_identity = None, track_phy_stats = False,
     channel = False, initiator = True,
     prv = Some (replicate 32 0x01), sig_prv = Some (replicate 32 0x02), token = None,
     pub = Some (replicate 32 0x03), pub_bytes = Some (replicate 32 0x03),
     sig_pub = Some (replicate 32 0x04), sig_pub_bytes = Some (replicate 32 0x04),
     peer_pub = None, peer_pub_bytes = None, peer_sig_pub = None, peer_sig_pub_bytes = None,
     shared_key = None, derived_key = None,
     link_id = replicate 16 0x1D, request_time = 100, establishment_timeout = 12,
     teardown_reason = None\<rparr>"

section \<open>Observations and example states\<close>


text \<open>What \<open>link_closed\<close> does outside the Link: it cancels the incoming, then the outgoing
  resources, shuts the channel down and calls the \<open>link_closed\<close> callback.\<close>

definition link_closed_events :: "link \<Rightarrow> event list" where
  "link_closed_events l =
     map (\<lambda>r. ResourceCancel (res_hash r)) (incoming_resources l)
     @ map (\<lambda>r. ResourceCancel (res_hash r)) (outgoing_resources l)
     @ (if channel l then [ChannelShutdown] else [])
     @ (if callbacks_link_closed l then [Callback CbLinkClosed] else [])"

text \<open>The initiator Link of the example once established on interface 1: keys derived, token
  built, last inbound traffic at time 150.\<close>

definition example_active_link :: link where
  "example_active_link = example_link\<lparr>
     status := ACTIVE, rtt := Some 0.5, mdu := Some 431, attached_interface := Some 1,
     activated_at := Some 101, last_proof := 101, last_inbound := 150,
     peer_pub := Some (replicate 32 0x05), peer_pub_bytes := Some (replicate 32 0x05),
     peer_sig_pub := Some (replicate 32 0x0B), peer_sig_pub_bytes := Some (replicate 32 0x0B),
     shared_key := Some (replicate 32 0x06), derived_key := Some (replicate 64 0x07),
     token := Some (replicate 64 0x07),
     remote_identity := Some (replicate 32 0x0A @ replicate 32 0x0B)\<rparr>"

text \<open>An inbound packet of the given type and context with the given payload, received on the
  given interface.\<close>

definition inbound :: "packet_type \<Rightarrow> packet_context \<Rightarrow> bytes \<Rightarrow> nat option \<Rightarrow> packet" where
  "inbound t c d i = \<lparr>packet_type = t, pcontext = c, data = d, raw = replicate 19 0 @ d,
     packet_hash = replicate 32 0x11, truncated_hash = replicate 16 0x11,
     receiving_interface = i, pkt_rssi = None, pkt_snr = None, pkt_q = None\<rparr>"

text \<open>The value \<open>__update_phy_stats\<close> stores for one statistic: the packet's own value, or
  the one queried from the shared instance when the packet has none, or the old one when both
  are missing.\<close>

definition phy_value :: "bool \<Rightarrow> real option \<Rightarrow> real option \<Rightarrow> real option \<Rightarrow> real option" where
  "phy_value qs pv shared old =
     (if (if qs \<and> pv = None then shared else pv) \<noteq> None
      then (if qs \<and> pv = None then shared else pv) else old)"



text \<open>An \<open>ACTIVE\<close> initiator Link with one inline request pending: its receipt, with request id
  sixteen bytes \<open>0x33\<close> and a \<open>failed\<close> callback, is at address 0 of the receipt heap.\<close>

definition example_receipt :: request_receipt where
  "example_receipt = \<lparr>
     request_id = replicate 16 0x33, request_size = 40,
     packet_receipt = Some \<lparr>pr_delivered = False, pr_proved = False, pr_concluded_at = None,
                            pr_delivery_callback = False\<rparr>,
     started_at = Some 160, sent_at = 160, timeout = 14.25, response = None, response_transfer_size = None,
     response_size = None, metadata = None, rstatus = SENT, progress = 0,
     concluded_at = None, response_concluded_at = None,
     cb_response = True, cb_failed = True, cb_progress = False\<rparr>"

definition example_requesting_link :: link where
  "example_requesting_link =
     example_active_link\<lparr>receipts := [example_receipt], pending_requests := [0]\<rparr>"


text \<open>The token \<open>decrypt\<close> leaves in place, and the contexts on which \<open>receive\<close> calls
  \<open>decrypt\<close>: \<open>LRRTT\<close> only on a responder, \<open>CHANNEL\<close> only with an open channel.\<close>

definition decrypt_token :: "env \<Rightarrow> link \<Rightarrow> bytes option" where
  "decrypt_token e l = (case token l of None \<Rightarrow> token_new e (derived_key l) | Some t \<Rightarrow> Some t)"

fun decrypting_context :: "link \<Rightarrow> packet_context \<Rightarrow> bool" where
  "decrypting_context l NONE = True"
| "decrypting_context l LINKIDENTIFY = True"
| "decrypting_context l REQUEST = True"
| "decrypting_context l RESPONSE = True"
| "decrypting_context l LINKCLOSE = True"
| "decrypting_context l RESOURCE_ADV = True"
| "decrypting_context l RESOURCE_REQ = True"
| "decrypting_context l RESOURCE_HMU = True"
| "decrypting_context l RESOURCE_ICL = True"
| "decrypting_context l RESOURCE_RCL = True"
| "decrypting_context l LRRTT = (\<not> initiator l)"
| "decrypting_context l CHANNEL = channel l"
| "decrypting_context l c = False"

text \<open>The payloads of the packets with context \<open>KEEPALIVE\<close> among a list of events, in
  order.\<close>

fun keepalive_sends :: "event list \<Rightarrow> bytes list" where
  "keepalive_sends [] = []"
| "keepalive_sends (Send t c d # es) =
     (if c = KEEPALIVE_CTX then d # keepalive_sends es else keepalive_sends es)"
| "keepalive_sends (x # es) = keepalive_sends es"

text \<open>The time of the last inbound traffic as the watchdog computes it.\<close>

definition watchdog_last_inbound :: "link \<Rightarrow> real" where
  "watchdog_last_inbound l =
     max (max (last_inbound l) (last_proof l)) (case activated_at l of None \<Rightarrow> 0 | Some t \<Rightarrow> t)"

section \<open>The signalling codec is a round trip\<close>

lemma mtu_mask: "0 \<le> m \<Longrightarrow> m < 2 ^ 21 \<Longrightarrow> (m::int) AND MTU_BYTEMASK = m"
proof -
  assume a: "0 \<le> m" "m < 2 ^ 21"
  have e: "MTU_BYTEMASK = mask 21" by (simp add: MTU_BYTEMASK_def mask_eq_exp_minus_1)
  have "take_bit 21 m = m" using a by (simp add: take_bit_int_eq_self)
  then show ?thesis unfolding e take_bit_eq_mask .
qed

lemma mode_part: "md \<in> set ENABLED_MODES \<Longrightarrow> push_bit 16 (push_bit 5 md AND MODE_BYTEMASK) = (2097152::int)"
  by (simp add: ENABLED_MODES_def MODE_AES256_CBC_def MODE_BYTEMASK_def)

lemma signalling_bytes_enabled:
  assumes "0 \<le> n" "n < 2 ^ 21" "md \<in> set ENABLED_MODES"
  shows "signalling_bytes n md =
     Inr [byte_of (drop_bit 16 (n + 2097152)), byte_of (drop_bit 8 (n + 2097152)), byte_of (n + 2097152)]"
proof -
  have v: "(n AND MTU_BYTEMASK) + push_bit 16 (push_bit 5 md AND MODE_BYTEMASK) = n + 2097152"
    using assms by (simp only: mtu_mask mode_part)
  have r: "0 \<le> n + 2097152 \<and> n + 2097152 < 2 ^ 32" using assms by simp
  show ?thesis
    unfolding signalling_bytes_def v Let_def struct_pack_I_def
    using assms(3) r by simp
qed

lemma uint_byte_of: "uint (byte_of v) = v mod 256"
  by (simp add: byte_of_def uint_word_of_int)

lemma mode_mask_shift: "drop_bit 5 ((b::int) AND MODE_BYTEMASK) = (b div 32) mod 8"
proof -
  have "drop_bit 5 (b AND MODE_BYTEMASK) = drop_bit 5 b AND drop_bit 5 MODE_BYTEMASK"
    by simp
  also have "drop_bit 5 MODE_BYTEMASK = (mask 3 :: int)"
    by (simp add: MODE_BYTEMASK_def mask_eq_exp_minus_1 drop_bit_eq_div)
  also have "drop_bit 5 b AND mask 3 = take_bit 3 (drop_bit 5 b)"
    by (simp add: take_bit_eq_mask)
  finally show ?thesis by (simp add: take_bit_eq_mod drop_bit_eq_div)
qed

lemma hi_byte:
  assumes "0 \<le> (m::int)" "m < 2 ^ 21"
  shows "((m + 2097152) div 65536) mod 256 = m div 65536 + 32"
    and "0 \<le> m div 65536" and "m div 65536 < 32"
proof -
  show lo: "0 \<le> m div 65536" using assms by simp
  show hi: "m div 65536 < 32" using assms by simp
  have "(m + 2097152) div 65536 = (m + 32 * 65536) div 65536" by simp
  also have "\<dots> = m div 65536 + 32" by simp
  finally have "(m + 2097152) div 65536 = m div 65536 + 32" .
  then show "((m + 2097152) div 65536) mod 256 = m div 65536 + 32"
    using lo hi by simp
qed

lemma bytes_recombine:
  fixes v :: int
  shows "((v div 65536) mod 256) * 65536 + ((v div 256) mod 256) * 256 + v mod 256 = v mod 16777216"
proof -
  have a: "v mod 16777216 = (v div 65536 mod 256) * 65536 + v mod 65536"
    using zmod_zmult2_eq [of 256 v 65536] by simp
  have b: "v mod 65536 = (v div 256 mod 256) * 256 + v mod 256"
    using zmod_zmult2_eq [of 256 v 256] by simp
  show ?thesis using a b by simp
qed

lemma be_value3: "be_value [a, b, c] = uint a * 65536 + uint b * 256 + uint c"
  by (simp add: be_value_def)

text \<open>
  Claim C6.  For every MTU \<open>n\<close> with \<open>0 \<le> n < 2^21\<close> and every enabled mode \<open>md\<close>,
  \<open>signalling_bytes\<close> returns three bytes whose 24-bit big-endian value holds \<open>n\<close> in its
  low 21 bits and \<open>md\<close> in the 3 bits above, and a link-request packet whose data is 64 key
  bytes followed by these three bytes decodes to exactly \<open>n\<close> and \<open>md\<close>.
\<close>

theorem signalling_roundtrip:
  assumes "0 \<le> n" and "n < 2 ^ 21" and "md \<in> set ENABLED_MODES"
    and "length pre = ECPUBSIZE"
  shows "\<exists>sb. signalling_bytes n md = Inr sb \<and> length sb = 3
           \<and> take_bit 21 (be_value sb) = n \<and> drop_bit 21 (be_value sb) = md
           \<and> be_value sb < 2 ^ 24
           \<and> mtu_from_lr_packet (packet\<lparr>data := pre @ sb\<rparr>) = Some n
           \<and> mode_from_lr_packet (packet\<lparr>data := pre @ sb\<rparr>) = md"
proof -
  define v where "v = n + 2097152"
  define sb where "sb = [byte_of (drop_bit 16 v), byte_of (drop_bit 8 v), byte_of v]"
  have m1: "md = 1" using assms(3) by (simp add: ENABLED_MODES_def MODE_AES256_CBC_def)
  have vr: "0 \<le> v" "v < 2 ^ 24" using assms(1,2) by (simp_all add: v_def)
  have enc: "signalling_bytes n md = Inr sb"
    unfolding sb_def v_def by (rule signalling_bytes_enabled [OF assms(1-3)])
  have val: "be_value sb = v"
    unfolding sb_def be_value3 uint_byte_of drop_bit_eq_div
    using bytes_recombine [of v] vr by simp
  have low: "take_bit 21 v = n"
    using assms(1,2) by (simp add: v_def take_bit_eq_mod)
  have high: "drop_bit 21 v = md"
    using assms(1,2) by (simp add: v_def drop_bit_eq_div m1)
  have nth: "(pre @ sb) ! ECPUBSIZE = byte_of (drop_bit 16 v)"
    "(pre @ sb) ! (ECPUBSIZE + 1) = byte_of (drop_bit 8 v)"
    "(pre @ sb) ! (ECPUBSIZE + 2) = byte_of v"
    using assms(4) by (simp_all add: nth_append sb_def)
  have len: "length (pre @ sb) = ECPUBSIZE + LINK_MTU_SIZE"
    using assms(4) by (simp add: sb_def LINK_MTU_SIZE_def)
  have sum: "push_bit 16 (uint (byte_of (drop_bit 16 v))) + push_bit 8 (uint (byte_of (drop_bit 8 v)))
               + uint (byte_of v) = v"
    unfolding uint_byte_of drop_bit_eq_div push_bit_eq_mult
    using bytes_recombine [of v] vr by simp
  have vm: "v AND MTU_BYTEMASK = n"
  proof -
    have "MTU_BYTEMASK = mask 21" by (simp add: MTU_BYTEMASK_def mask_eq_exp_minus_1)
    then show ?thesis using low by (simp only: take_bit_eq_mask)
  qed
  have dat: "data (packet\<lparr>data := pre @ sb\<rparr>) = pre @ sb" by simp
  have dmtu: "mtu_from_lr_packet (packet\<lparr>data := pre @ sb\<rparr>) = Some n"
    unfolding mtu_from_lr_packet_def dat nth sum vm using len by simp
  have dmode: "mode_from_lr_packet (packet\<lparr>data := pre @ sb\<rparr>) = md"
  proof -
    have "length (pre @ sb) > ECPUBSIZE" using len by (simp add: LINK_MTU_SIZE_def)
    moreover have "drop_bit 5 (uint (byte_of (drop_bit 16 v)) AND MODE_BYTEMASK) = 1"
    proof -
      have "(n div 65536 + 32) div 32 = 1"
        using hi_byte(2,3) [OF assms(1,2)] by simp
      moreover have "uint (byte_of (drop_bit 16 v)) = n div 65536 + 32"
        unfolding uint_byte_of v_def using hi_byte(1) [OF assms(1,2)]
        by (simp only: drop_bit_eq_div) simp
      ultimately show ?thesis by (simp only: mode_mask_shift) simp
    qed
    ultimately show ?thesis unfolding mode_from_lr_packet_def dat nth
      by (simp add: m1)
  qed
  show ?thesis
    using enc val low high vr dmtu dmode by (intro exI [of _ sb]) (simp add: sb_def)
qed

theorem signalling_roundtrip_witness:
  "(0::int) \<le> 500 \<and> (500::int) < 2 ^ 21 \<and> MODE_AES256_CBC \<in> set ENABLED_MODES
   \<and> length (replicate 64 (0::8 word)) = ECPUBSIZE
   \<and> signalling_bytes 500 MODE_AES256_CBC = Inr [0x20, 0x01, 0xF4]
   \<and> (\<exists>sb. signalling_bytes 500 MODE_AES256_CBC = Inr sb
         \<and> mtu_from_lr_packet
             \<lparr>packet_type = LINKREQUEST, pcontext = NONE, data = replicate 64 0 @ sb, raw = [],
              packet_hash = [], truncated_hash = [], receiving_interface = None, pkt_rssi = None, pkt_snr = None,
              pkt_q = None\<rparr> = Some 500
         \<and> mode_from_lr_packet
             \<lparr>packet_type = LINKREQUEST, pcontext = NONE, data = replicate 64 0 @ sb, raw = [],
              packet_hash = [], truncated_hash = [], receiving_interface = None, pkt_rssi = None, pkt_snr = None,
              pkt_q = None\<rparr> = MODE_AES256_CBC)"
proof -
  have h1: "(0::int) \<le> 500" and h2: "(500::int) < 2 ^ 21" by simp_all
  have h3: "MODE_AES256_CBC \<in> set ENABLED_MODES" by (simp add: ENABLED_MODES_def)
  have h4: "length (replicate 64 (0::8 word)) = ECPUBSIZE" by (simp add: ECPUBSIZE_def)
  have c: "signalling_bytes 500 MODE_AES256_CBC = Inr [0x20, 0x01, 0xF4]"
    by (simp add: signalling_bytes_def ENABLED_MODES_def MODE_AES256_CBC_def MTU_BYTEMASK_def
        MODE_BYTEMASK_def struct_pack_I_def byte_of_def drop_bit_eq_div)
  from signalling_roundtrip [OF h1 h2 h3 h4,
      of "\<lparr>packet_type = LINKREQUEST, pcontext = NONE, data = [], raw = [],
              packet_hash = [], truncated_hash = [], receiving_interface = None, pkt_rssi = None, pkt_snr = None,
              pkt_q = None\<rparr>"]
  show ?thesis using h1 h2 h3 h4 c by simp
qed

section \<open>The data unit and the keep-alive interval\<close>

text \<open>
  Claim C7.  After \<open>update_mdu\<close>, with a positive block size,
  \<open>mdu = floor((mtu - header_min - ifac_min - token_overhead) / block_size) * block_size - 1\<close>;
  hence \<open>mdu\<close> is congruent to \<open>-1\<close> modulo the block size and at most \<open>mtu\<close> minus the
  overhead.  \<open>mtu\<close> itself is untouched.
\<close>

theorem update_mdu_formula:
  assumes "0 < AES128_BLOCKSIZE e"
  shows "\<exists>l' m. update_mdu e l = (l', None) \<and> mdu l' = Some m \<and> mtu l' = mtu l
           \<and> m = \<lfloor>real_of_int (mtu l - HEADER_MINSIZE e - IFAC_MIN_SIZE e - TOKEN_OVERHEAD e)
                     / real_of_int (AES128_BLOCKSIZE e)\<rfloor> * AES128_BLOCKSIZE e - 1
           \<and> m mod AES128_BLOCKSIZE e = (- 1) mod AES128_BLOCKSIZE e
           \<and> m \<le> mtu l - (HEADER_MINSIZE e + IFAC_MIN_SIZE e + TOKEN_OVERHEAD e)"
proof -
  define b where "b = AES128_BLOCKSIZE e"
  define x where "x = mtu l - HEADER_MINSIZE e - IFAC_MIN_SIZE e - TOKEN_OVERHEAD e"
  define m where "m = \<lfloor>real_of_int x / real_of_int b\<rfloor> * b - 1"
  have bpos: "0 < b" using assms by (simp add: b_def)
  have fl: "\<lfloor>real_of_int x / real_of_int b\<rfloor> = x div b"
    by (rule floor_divide_of_int_eq)
  have run: "update_mdu e l = (l\<lparr>mdu := Some m\<rparr>, None)"
    using bpos by (simp add: update_mdu_def m_def x_def b_def algebra_simps)
  have cong: "m mod b = (- 1) mod b"
  proof -
    have "m = - 1 + x div b * b" unfolding m_def fl by simp
    then show ?thesis by (simp only: mod_mult_self1)
  qed
  have "x div b * b \<le> x"
    using div_mult_mod_eq [of x b] pos_mod_sign [OF bpos, of x] by linarith
  then have le: "m \<le> x" unfolding m_def fl by simp
  show ?thesis
    using run cong le by (intro exI [of _ "l\<lparr>mdu := Some m\<rparr>"] exI [of _ m])
      (simp add: m_def x_def b_def algebra_simps)
qed

theorem update_mdu_formula_witness:
  "0 < AES128_BLOCKSIZE example_env
   \<and> (\<exists>l'. update_mdu example_env example_link = (l', None) \<and> mdu l' = Some 431)"
proof -
  have h: "0 < AES128_BLOCKSIZE example_env" by (simp add: example_env_def)
  have m: "mtu example_link = 500" by (simp add: example_link_def)
  from update_mdu_formula [OF h, of example_link]
  obtain l' m where r: "update_mdu example_env example_link = (l', None)" "mdu l' = Some m"
    "m = \<lfloor>real_of_int (mtu example_link - HEADER_MINSIZE example_env - IFAC_MIN_SIZE example_env
            - TOKEN_OVERHEAD example_env) / real_of_int (AES128_BLOCKSIZE example_env)\<rfloor>
          * AES128_BLOCKSIZE example_env - 1"
    by blast
  have "m = 431" unfolding r(3) m by (simp add: example_env_def)
  then show ?thesis using h r by blast
qed

text \<open>
  Claim C8.  For every non-negative \<open>rtt\<close>, after \<open>__update_keepalive\<close> the keep-alive
  interval lies in \<open>[KEEPALIVE_MIN, KEEPALIVE_MAX] = [5, 360]\<close> and \<open>stale_time\<close> is twice
  the keep-alive interval.
\<close>

theorem update_keepalive_range:
  assumes "rtt l = Some r" and "0 \<le> r"
  shows "\<exists>l'. Link__update_keepalive l = Inr l'
           \<and> KEEPALIVE_MIN = 5 \<and> KEEPALIVE_MAX = 360
           \<and> KEEPALIVE_MIN \<le> keepalive l' \<and> keepalive l' \<le> KEEPALIVE_MAX
           \<and> stale_time l' = 2 * keepalive l'"
  using assms
  by (simp add: Link__update_keepalive_def KEEPALIVE_MIN_def KEEPALIVE_MAX_def STALE_FACTOR_def
      Let_def)

theorem update_keepalive_range_witness:
  "rtt (example_link\<lparr>rtt := Some 0.1\<rparr>) = Some 0.1 \<and> (0::real) \<le> 0.1
   \<and> (\<exists>l'. Link__update_keepalive (example_link\<lparr>rtt := Some 0.1\<rparr>) = Inr l'
         \<and> keepalive l' = 144 / 7 \<and> stale_time l' = 288 / 7)"
proof -
  have h1: "rtt (example_link\<lparr>rtt := Some 0.1\<rparr>) = Some 0.1" by simp
  have h2: "(0::real) \<le> 0.1" by simp
  from update_keepalive_range [OF h1 h2]
  obtain l' where r: "Link__update_keepalive (example_link\<lparr>rtt := Some 0.1\<rparr>) = Inr l'"
    "stale_time l' = 2 * keepalive l'" by blast
  have "keepalive l' = 144 / 7"
    using r(1) by (auto simp add: Link__update_keepalive_def KEEPALIVE_MAX_def KEEPALIVE_MAX_RTT_def
        KEEPALIVE_MIN_def Let_def)
  then show ?thesis using h1 h2 r by auto
qed

section \<open>Closing a Link\<close>

lemma link_closed_snd: "snd (link_closed l) = link_closed_events l"
  by (simp add: link_closed_def link_closed_events_def Let_def split: option.split)

lemma link_closed_status: "status (fst (link_closed l)) = status l"
  by (simp add: link_closed_def Let_def split: option.split)


lemma link_closed_kept:
  "initiator (fst (link_closed l)) = initiator l"
  "teardown_reason (fst (link_closed l)) = teardown_reason l"
  "incoming_resources (fst (link_closed l)) = incoming_resources l"
  "outgoing_resources (fst (link_closed l)) = outgoing_resources l"
  "channel (fst (link_closed l)) = channel l"
  "callbacks_link_closed (fst (link_closed l)) = callbacks_link_closed l"
  "track_phy_stats (fst (link_closed l)) = track_phy_stats l"
  by (simp_all add: link_closed_def Let_def split: option.split)

lemma link_closed_events_kept:
  "link_closed_events (fst (link_closed l)) = link_closed_events l"
  by (simp add: link_closed_events_def link_closed_kept)

lemma link_closed_idem: "fst (link_closed (fst (link_closed l))) = fst (link_closed l)"
proof (cases "destination l")
  case None
  then show ?thesis by (simp add: link_closed_def Let_def)
next
  case (Some d)
  show ?thesis
  proof (cases "direction d = IN")
    case True
    note t = this
    show ?thesis
    proof (cases "links_has_self d")
      case True
      then show ?thesis using Some t by (simp add: link_closed_def Let_def)
    next
      case False
      then show ?thesis using Some t by (simp add: link_closed_def Let_def)
    qed
  next
    case False
    then show ?thesis using Some by (simp add: link_closed_def Let_def)
  qed
qed

lemma filter_is_send_closed: "filter is_send (link_closed_events l) = []"
  by (simp add: link_closed_events_def)

lemma teardown_fst:
  "fst (teardown now l) =
     fst (link_closed ((if status l \<noteq> PENDING \<and> status l \<noteq> CLOSED then had_outbound now False l else l)
            \<lparr>status := CLOSED,
             teardown_reason := Some (if initiator l then INITIATOR_CLOSED else DESTINATION_CLOSED)\<rparr>))"
  by (simp add: teardown_def Link__teardown_packet_def had_outbound_def Let_def split_beta)

lemma teardown_snd:
  "snd (teardown now l) =
     (if status l \<noteq> PENDING \<and> status l \<noteq> CLOSED then [Send DATA LINKCLOSE (link_id l)] else [])
     @ link_closed_events l"
  by (simp add: teardown_def Link__teardown_packet_def had_outbound_def Let_def split_beta
      link_closed_snd link_closed_events_def)

lemma teardown_status: "status (fst (teardown now l)) = CLOSED"
  by (simp add: teardown_fst link_closed_status)


lemma teardown_kept:
  "initiator (fst (teardown now l)) = initiator l"
  "teardown_reason (fst (teardown now l))
     = Some (if initiator l then INITIATOR_CLOSED else DESTINATION_CLOSED)"
  "incoming_resources (fst (teardown now l)) = incoming_resources l"
  "outgoing_resources (fst (teardown now l)) = outgoing_resources l"
  "channel (fst (teardown now l)) = channel l"
  "callbacks_link_closed (fst (teardown now l)) = callbacks_link_closed l"
  "track_phy_stats (fst (teardown now l)) = track_phy_stats l"
  by (simp_all add: teardown_fst link_closed_kept had_outbound_def Let_def)

lemma teardown_closed_state:
  assumes "status l = CLOSED"
    and "teardown_reason l = Some (if initiator l then INITIATOR_CLOSED else DESTINATION_CLOSED)"
  shows "fst (teardown now l) = fst (link_closed l)"
proof -
  have "l\<lparr>status := CLOSED,
           teardown_reason := Some (if initiator l then INITIATOR_CLOSED else DESTINATION_CLOSED)\<rparr> = l"
    using assms by simp
  then show ?thesis using assms(1) by (simp add: teardown_fst)
qed

lemma teardown_again:
  "teardown t2 (fst (teardown t1 l)) = (fst (teardown t1 l), link_closed_events l)"
proof -
  define l1 where "l1 = fst (teardown t1 l)"
  have st: "status l1 = CLOSED" unfolding l1_def by (rule teardown_status)
  have tr: "teardown_reason l1 = Some (if initiator l1 then INITIATOR_CLOSED else DESTINATION_CLOSED)"
    unfolding l1_def by (simp add: teardown_kept)
  have "fst (teardown t2 l1) = fst (link_closed l1)"
    by (rule teardown_closed_state [OF st tr])
  also have "\<dots> = l1"
    unfolding l1_def teardown_fst by (rule link_closed_idem)
  finally have a: "fst (teardown t2 l1) = l1" .
  have "snd (teardown t2 l1) = link_closed_events l1"
    using st by (simp add: teardown_snd)
  also have "\<dots> = link_closed_events l"
    unfolding l1_def by (simp add: link_closed_events_def teardown_kept)
  finally have b: "snd (teardown t2 l1) = link_closed_events l" .
  show ?thesis using a b unfolding l1_def by (simp add: prod_eq_iff)
qed

text \<open>
  Claim C5, as amended.  A second \<open>teardown()\<close> finds the Link \<open>CLOSED\<close>, sends no packet
  and leaves every field of the Link as the first call left it (\<open>teardown_reason\<close> and the
  purged keys included).  It is not without effect: \<open>teardown\<close> has no guard, so
  \<open>link_closed\<close> runs again, cancelling every resource still registered, shutting the channel
  down and calling the \<open>link_closed\<close> callback a second time.
\<close>

theorem teardown_twice:
  "status (fst (teardown t1 l)) = CLOSED
   \<and> teardown t2 (fst (teardown t1 l)) = (fst (teardown t1 l), link_closed_events l)
   \<and> filter is_send (snd (teardown t2 (fst (teardown t1 l)))) = []"
  by (simp add: teardown_status teardown_again filter_is_send_closed)

text \<open>The claim as written fails: with a \<open>link_closed\<close> callback registered, the second
  \<open>teardown()\<close> fires it again.\<close>

theorem teardown_twice_counterexample:
  "callbacks_link_closed example_active_link
   \<and> status (fst (teardown 200 example_active_link)) = CLOSED
   \<and> Callback CbLinkClosed \<in> set (snd (teardown 300 (fst (teardown 200 example_active_link))))"
proof -
  have a: "callbacks_link_closed example_active_link"
    by (simp add: example_active_link_def example_link_def)
  have b: "snd (teardown 300 (fst (teardown 200 example_active_link)))
             = link_closed_events example_active_link"
    by (simp only: teardown_again snd_conv)
  have c: "Callback CbLinkClosed \<in> set (link_closed_events example_active_link)"
    using a by (simp add: link_closed_events_def)
  show ?thesis using a b c teardown_status [of 200 example_active_link] by simp
qed

section \<open>Decryption and physical-layer statistics leave the rest of the Link alone\<close>

lemma decrypt_state: "\<exists>tk. fst (decrypt e l ct) = l\<lparr>token := tk\<rparr>"
proof (cases "token l")
  case None
  note n = this
  show ?thesis
  proof (cases "token_new e (derived_key l)")
    case None
    have "l = l\<lparr>token := token l\<rparr>" by simp
    then have "fst (decrypt e l ct) = l\<lparr>token := token l\<rparr>"
      using n None by (simp add: decrypt_def)
    then show ?thesis by blast
  next
    case (Some t)
    then have "fst (decrypt e l ct) = l\<lparr>token := Some t\<rparr>"
      using n by (simp add: decrypt_def split: option.split)
    then show ?thesis by blast
  qed
next
  case (Some t)
  have "l = l\<lparr>token := token l\<rparr>" by simp
  then have "fst (decrypt e l ct) = l\<lparr>token := token l\<rparr>"
    using Some by (simp add: decrypt_def split: option.split)
  then show ?thesis by blast
qed

lemma decrypt_events:
  "fst (snd (decrypt e l ct))
     = (if snd (snd (decrypt e l ct)) = None then [Log LOG_ERROR DecryptionFailed] else [])"
  by (simp add: decrypt_def split: option.split)

lemma decrypt_result_indep:
  "token l' = token l \<Longrightarrow> derived_key l' = derived_key l
     \<Longrightarrow> snd (snd (decrypt e l' ct)) = snd (snd (decrypt e l ct))"
  by (simp add: decrypt_def split: option.split)

lemma if_upd_rssi: "(if c then r\<lparr>rssi := v\<rparr> else r) = r\<lparr>rssi := (if c then v else rssi r)\<rparr>"
  by (cases c) simp_all

lemma if_upd_snr: "(if c then r\<lparr>snr := v\<rparr> else r) = r\<lparr>snr := (if c then v else snr r)\<rparr>"
  by (cases c) simp_all

lemma if_upd_q: "(if c then r\<lparr>q := v\<rparr> else r) = r\<lparr>q := (if c then v else q r)\<rparr>"
  by (cases c) simp_all

lemma phy_stats_state:
  "Link__update_phy_stats e l p qs fu =
     (if track_phy_stats l \<or> fu
      then l\<lparr>rssi := phy_value qs (pkt_rssi p) (get_packet_rssi e (packet_hash p)) (rssi l),
             snr := phy_value qs (pkt_snr p) (get_packet_snr e (packet_hash p)) (snr l),
             q := phy_value qs (pkt_q p) (get_packet_q e (packet_hash p)) (q l)\<rparr>
      else l)"
  unfolding Link__update_phy_stats_def Let_def if_upd_rssi if_upd_snr if_upd_q phy_value_def
  by simp


section \<open>Every closing path that runs \<open>link_closed\<close> purges the encryption keys\<close>

lemma decrypt_kept:
  "status (fst (decrypt e l ct)) = status l"
  "initiator (fst (decrypt e l ct)) = initiator l"
  "link_id (fst (decrypt e l ct)) = link_id l"
  "derived_key (fst (decrypt e l ct)) = derived_key l"
proof -
  obtain tk where "fst (decrypt e l ct) = l\<lparr>token := tk\<rparr>" using decrypt_state by blast
  then show "status (fst (decrypt e l ct)) = status l"
    "initiator (fst (decrypt e l ct)) = initiator l"
    "link_id (fst (decrypt e l ct)) = link_id l"
    "derived_key (fst (decrypt e l ct)) = derived_key l"
    by simp_all
qed













section \<open>Interface pinning\<close>

text \<open>
  Claim C4, as amended.  A packet delivered to \<open>receive()\<close> on an \<open>ACTIVE\<close> Link through an
  interface other than \<open>attached_interface\<close> is dropped without dispatch: no field of the
  Link changes (\<open>watchdog_lock\<close> is raised and released), so \<open>status\<close>, \<open>rx\<close>, \<open>rxbytes\<close>,
  \<open>last_inbound\<close> and \<open>last_data\<close> are as before and the Link is not closed.  One error
  line is logged, except for a \<open>0xFF\<close> keep-alive arriving at an initiator: the guard before
  the interface test drops that one silently.
\<close>

theorem receive_interface_mismatch:
  assumes "status l = ACTIVE" and "receiving_interface p \<noteq> attached_interface l"
  shows "receive e now l p =
           (l\<lparr>watchdog_lock := False\<rparr>,
            (if initiator l \<and> pcontext p = KEEPALIVE_CTX \<and> data p = [0xFF] then []
             else [Log LOG_ERROR (UnexpectedInterface (receiving_interface p) (attached_interface l))]),
            None)"
  using assms by (simp add: receive_def Let_def)

theorem receive_interface_mismatch_witness:
  "status example_active_link = ACTIVE
   \<and> receiving_interface (inbound DATA NONE [0x01, 0x68, 0x69] (Some 2))
       \<noteq> attached_interface example_active_link
   \<and> receive example_env 200 example_active_link (inbound DATA NONE [0x01, 0x68, 0x69] (Some 2))
       = (example_active_link\<lparr>watchdog_lock := False\<rparr>,
          [Log LOG_ERROR (UnexpectedInterface (Some 2) (Some 1))], None)"
proof -
  have h1: "status example_active_link = ACTIVE"
    by (simp add: example_active_link_def)
  have h2: "receiving_interface (inbound DATA NONE [0x01, 0x68, 0x69] (Some 2))
              \<noteq> attached_interface example_active_link"
    by (simp add: example_active_link_def inbound_def)
  have "pcontext (inbound DATA NONE [0x01, 0x68, 0x69] (Some 2)) = NONE"
    "receiving_interface (inbound DATA NONE [0x01, 0x68, 0x69] (Some 2)) = Some 2"
    "attached_interface example_active_link = Some 1"
    by (simp_all add: inbound_def example_active_link_def)
  then show ?thesis
    using h1 h2 receive_interface_mismatch [OF h1 h2, of example_env 200] by simp
qed

text \<open>The claim as written fails: a \<open>0xFF\<close> keep-alive injected on another interface of
  an initiator's Link is dropped with nothing logged.\<close>

theorem receive_interface_mismatch_counterexample:
  "status example_active_link = ACTIVE
   \<and> receiving_interface (inbound DATA KEEPALIVE_CTX [0xFF] (Some 2))
       \<noteq> attached_interface example_active_link
   \<and> fst (snd (receive example_env 200 example_active_link
                  (inbound DATA KEEPALIVE_CTX [0xFF] (Some 2)))) = []"
  by (simp add: receive_def Let_def example_active_link_def example_link_def inbound_def)

section \<open>Request time-outs\<close>

lemma receipt_at_update:
  "receipt_at l a = Some r \<Longrightarrow> receipt_at (l\<lparr>receipts := (receipts l)[a := r']\<rparr>) a = Some r'"
  by (simp add: receipt_at_def split: if_split_asm)

lemma request_timed_out_absent:
  assumes "receipt_at l a = Some r" and "a \<notin> set (pending_requests l)"
  shows "request_timed_out now a l =
           (l\<lparr>receipts := (receipts l)[a := r\<lparr>rstatus := FAILED, concluded_at := Some now\<rparr>]\<rparr>,
            [], Some ValueError)"
  using assms by (simp add: request_timed_out_def list_remove_def Let_def)

lemma request_timed_out_present:
  assumes "receipt_at l a = Some r" and "a \<in> set (pending_requests l)"
  shows "request_timed_out now a l =
           (l\<lparr>receipts := (receipts l)[a := r\<lparr>rstatus := FAILED, concluded_at := Some now\<rparr>],
              pending_requests := remove1 a (pending_requests l)\<rparr>,
            (if cb_failed r then [Callback (CbReceiptFailed a)] else []), None)"
  using assms by (simp add: request_timed_out_def list_remove_def Let_def)

lemma handle_response_match:
  assumes "status l = ACTIVE"
    and "find (\<lambda>a. case receipt_at l a of None \<Rightarrow> False
                    | Some r \<Rightarrow> PyBytes (request_id r) = rid) (pending_requests l) = Some a"
  shows "\<exists>r'. receipt_at (fst (handle_response now l rid resp rsize rtsize md)) a = Some r'"
    and "pending_requests (fst (handle_response now l rid resp rsize rtsize md))
           = remove1 a (pending_requests l)"
proof -
  from assms(2) have mem: "a \<in> set (pending_requests l)"
    and hit: "(case receipt_at l a of None \<Rightarrow> False | Some r \<Rightarrow> PyBytes (request_id r) = rid)"
    by (auto simp add: find_Some_iff)
  from hit obtain r where r: "receipt_at l a = Some r" by (cases "receipt_at l a") auto
  then have len: "a < length (receipts l)" by (simp add: receipt_at_def split: if_split_asm)
  show "\<exists>r'. receipt_at (fst (handle_response now l rid resp rsize rtsize md)) a = Some r'"
    using assms r mem len
    by (simp add: handle_response_def Let_def split_beta list_remove_def receipt_at_def)
  show "pending_requests (fst (handle_response now l rid resp rsize rtsize md))
           = remove1 a (pending_requests l)"
    using assms r mem
    by (simp add: handle_response_def Let_def split_beta list_remove_def)
qed

lemma handle_response_no_match:
  assumes "find (\<lambda>a. case receipt_at l a of None \<Rightarrow> False
                    | Some r \<Rightarrow> PyBytes (request_id r) = rid) (pending_requests l) = None"
  shows "handle_response now l rid resp rsize rtsize md = (l, [])"
  using assms by (simp add: handle_response_def)

text \<open>
  Claim C10.  \<open>request_timed_out\<close> removes the receipt from \<open>pending_requests\<close> with no
  membership test.  For a receipt that is in the list it sets the status to \<open>FAILED\<close> (and
  \<open>concluded_at\<close>), removes the first occurrence of the receipt from the list and calls the
  \<open>failed\<close> callback, with no exception.  For a receipt that is not in the list it sets the
  status to \<open>FAILED\<close> (and \<open>concluded_at\<close>) and then raises \<open>ValueError\<close>, uncaught, before
  the \<open>failed\<close> callback.  \<open>handle_response\<close> tests membership before it removes: with no
  matching pending receipt it does nothing; otherwise it removes the first matching receipt,
  and once it has concluded and removed that receipt from a duplicate-free list, a later
  \<open>request_timed_out\<close> on it raises \<open>ValueError\<close>.
\<close>

theorem request_timed_out_unconditional_remove:
  "(receipt_at l a = Some r \<and> a \<in> set (pending_requests l)
      \<longrightarrow> request_timed_out now a l =
            (l\<lparr>receipts := (receipts l)[a := r\<lparr>rstatus := FAILED, concluded_at := Some now\<rparr>],
               pending_requests := remove1 a (pending_requests l)\<rparr>,
             (if cb_failed r then [Callback (CbReceiptFailed a)] else []), None))
   \<and> (receipt_at l a = Some r \<and> a \<notin> set (pending_requests l)
      \<longrightarrow> request_timed_out now a l =
            (l\<lparr>receipts := (receipts l)[a := r\<lparr>rstatus := FAILED, concluded_at := Some now\<rparr>]\<rparr>,
             [], Some ValueError))
   \<and> (find (\<lambda>a. case receipt_at l a of None \<Rightarrow> False
                   | Some r \<Rightarrow> PyBytes (request_id r) = rid) (pending_requests l) = None
      \<longrightarrow> handle_response now l rid resp rsize rtsize md = (l, []))
   \<and> (status l = ACTIVE \<and> distinct (pending_requests l)
       \<and> find (\<lambda>a. case receipt_at l a of None \<Rightarrow> False
                   | Some r \<Rightarrow> PyBytes (request_id r) = rid) (pending_requests l) = Some a
      \<longrightarrow> pending_requests (fst (handle_response now l rid resp rsize rtsize md))
            = remove1 a (pending_requests l)
          \<and> a \<notin> set (pending_requests (fst (handle_response now l rid resp rsize rtsize md)))
          \<and> (\<exists>l'. request_timed_out later a (fst (handle_response now l rid resp rsize rtsize md))
                     = (l', [], Some ValueError)
                   \<and> map_option rstatus (receipt_at l' a) = Some FAILED))"
proof (intro conjI impI)
  assume "receipt_at l a = Some r \<and> a \<in> set (pending_requests l)"
  then show "request_timed_out now a l =
            (l\<lparr>receipts := (receipts l)[a := r\<lparr>rstatus := FAILED, concluded_at := Some now\<rparr>],
               pending_requests := remove1 a (pending_requests l)\<rparr>,
             (if cb_failed r then [Callback (CbReceiptFailed a)] else []), None)"
    by (simp add: request_timed_out_present)
next
  assume "receipt_at l a = Some r \<and> a \<notin> set (pending_requests l)"
  then show "request_timed_out now a l =
            (l\<lparr>receipts := (receipts l)[a := r\<lparr>rstatus := FAILED, concluded_at := Some now\<rparr>]\<rparr>,
             [], Some ValueError)"
    by (simp add: request_timed_out_absent)
next
  assume "find (\<lambda>a. case receipt_at l a of None \<Rightarrow> False
                   | Some r \<Rightarrow> PyBytes (request_id r) = rid) (pending_requests l) = None"
  then show "handle_response now l rid resp rsize rtsize md = (l, [])"
    by (rule handle_response_no_match)
next
  assume h: "status l = ACTIVE \<and> distinct (pending_requests l)
       \<and> find (\<lambda>a. case receipt_at l a of None \<Rightarrow> False
                   | Some r \<Rightarrow> PyBytes (request_id r) = rid) (pending_requests l) = Some a"
  define l1 where "l1 = fst (handle_response now l rid resp rsize rtsize md)"
  from h obtain r' where r': "receipt_at l1 a = Some r'"
    unfolding l1_def using handle_response_match(1) by blast
  have p: "pending_requests l1 = remove1 a (pending_requests l)"
    unfolding l1_def using h handle_response_match(2) by blast
  have out: "a \<notin> set (pending_requests l1)" using h p by simp
  have t: "request_timed_out later a l1 =
           (l1\<lparr>receipts := (receipts l1)[a := r'\<lparr>rstatus := FAILED, concluded_at := Some later\<rparr>]\<rparr>,
            [], Some ValueError)"
    by (rule request_timed_out_absent [OF r' out])
  have f: "map_option rstatus (receipt_at
             (l1\<lparr>receipts := (receipts l1)[a := r'\<lparr>rstatus := FAILED, concluded_at := Some later\<rparr>]\<rparr>) a)
           = Some FAILED"
    by (simp add: receipt_at_update [OF r'])
  show "pending_requests (fst (handle_response now l rid resp rsize rtsize md))
            = remove1 a (pending_requests l)"
    using p unfolding l1_def .
  show "a \<notin> set (pending_requests (fst (handle_response now l rid resp rsize rtsize md)))"
    using out unfolding l1_def .
  show "\<exists>l'. request_timed_out later a (fst (handle_response now l rid resp rsize rtsize md))
                     = (l', [], Some ValueError)
                   \<and> map_option rstatus (receipt_at l' a) = Some FAILED"
    using t f unfolding l1_def by blast
qed

theorem request_timed_out_unconditional_remove_witness:
  "receipt_at example_requesting_link 0 = Some example_receipt
   \<and> 0 \<in> set (pending_requests example_requesting_link)
   \<and> request_timed_out 200 0 example_requesting_link
       = (example_requesting_link\<lparr>
            receipts := [example_receipt\<lparr>rstatus := FAILED, concluded_at := Some 200\<rparr>],
            pending_requests := []\<rparr>,
          [Callback (CbReceiptFailed 0)], None)
   \<and> receipt_at (example_requesting_link\<lparr>pending_requests := []\<rparr>) 0 = Some example_receipt
   \<and> 0 \<notin> set (pending_requests (example_requesting_link\<lparr>pending_requests := []\<rparr>))
   \<and> request_timed_out 200 0 (example_requesting_link\<lparr>pending_requests := []\<rparr>)
       = (example_requesting_link\<lparr>pending_requests := [],
            receipts := [example_receipt\<lparr>rstatus := FAILED, concluded_at := Some 200\<rparr>]\<rparr>,
          [], Some ValueError)
   \<and> find (\<lambda>a. case receipt_at example_active_link a of None \<Rightarrow> False
                 | Some r \<Rightarrow> PyBytes (request_id r) = PyBytes (replicate 16 0x33))
         (pending_requests example_active_link) = None
   \<and> handle_response 170 example_active_link (PyBytes (replicate 16 0x33)) (PyBytes [0x6F, 0x6B])
         2 2 None = (example_active_link, [])
   \<and> status example_requesting_link = ACTIVE
   \<and> distinct (pending_requests example_requesting_link)
   \<and> find (\<lambda>a. case receipt_at example_requesting_link a of None \<Rightarrow> False
                 | Some r \<Rightarrow> PyBytes (request_id r) = PyBytes (replicate 16 0x33))
         (pending_requests example_requesting_link) = Some 0
   \<and> pending_requests (fst (handle_response 170 example_requesting_link
                  (PyBytes (replicate 16 0x33)) (PyBytes [0x6F, 0x6B]) 2 2 None)) = []
   \<and> (\<exists>l'. request_timed_out 200 0 (fst (handle_response 170 example_requesting_link
                  (PyBytes (replicate 16 0x33)) (PyBytes [0x6F, 0x6B]) 2 2 None))
               = (l', [], Some ValueError)
             \<and> map_option rstatus (receipt_at l' 0) = Some FAILED)"
proof -
  have a0: "receipt_at example_requesting_link 0 = Some example_receipt
            \<and> 0 \<in> set (pending_requests example_requesting_link)"
    by (simp add: receipt_at_def example_requesting_link_def)
  have c0: "request_timed_out 200 0 example_requesting_link
       = (example_requesting_link\<lparr>
            receipts := [example_receipt\<lparr>rstatus := FAILED, concluded_at := Some 200\<rparr>],
            pending_requests := []\<rparr>,
          [Callback (CbReceiptFailed 0)], None)"
    using request_timed_out_unconditional_remove
      [where l = example_requesting_link and a = 0 and r = example_receipt and now = 200]
      a0 by (simp add: example_requesting_link_def example_receipt_def)
  have a1: "receipt_at (example_requesting_link\<lparr>pending_requests := []\<rparr>) 0 = Some example_receipt
            \<and> 0 \<notin> set (pending_requests (example_requesting_link\<lparr>pending_requests := []\<rparr>))"
    by (simp add: receipt_at_def example_requesting_link_def)
  have c1: "request_timed_out 200 0 (example_requesting_link\<lparr>pending_requests := []\<rparr>)
       = (example_requesting_link\<lparr>pending_requests := [],
            receipts := [example_receipt\<lparr>rstatus := FAILED, concluded_at := Some 200\<rparr>]\<rparr>,
          [], Some ValueError)"
    using request_timed_out_unconditional_remove
      [where l = "example_requesting_link\<lparr>pending_requests := []\<rparr>" and a = 0
         and r = example_receipt and now = 200]
      a1 by (simp add: example_requesting_link_def)
  have a2: "find (\<lambda>a. case receipt_at example_active_link a of None \<Rightarrow> False
                 | Some r \<Rightarrow> PyBytes (request_id r) = PyBytes (replicate 16 0x33))
         (pending_requests example_active_link) = None"
    by (simp add: example_active_link_def example_link_def)
  have c2: "handle_response 170 example_active_link (PyBytes (replicate 16 0x33))
              (PyBytes [0x6F, 0x6B]) 2 2 None = (example_active_link, [])"
    using request_timed_out_unconditional_remove
      [where l = example_active_link and rid = "PyBytes (replicate 16 0x33)" and now = 170
         and resp = "PyBytes [0x6F, 0x6B]" and rsize = 2 and rtsize = 2 and md = None]
      a2 by blast
  have a3: "status example_requesting_link = ACTIVE
            \<and> distinct (pending_requests example_requesting_link)
            \<and> find (\<lambda>a. case receipt_at example_requesting_link a of None \<Rightarrow> False
                 | Some r \<Rightarrow> PyBytes (request_id r) = PyBytes (replicate 16 0x33))
                (pending_requests example_requesting_link) = Some 0"
    by (simp add: example_requesting_link_def example_active_link_def receipt_at_def
        example_receipt_def)
  have c3: "pending_requests (fst (handle_response 170 example_requesting_link
                  (PyBytes (replicate 16 0x33)) (PyBytes [0x6F, 0x6B]) 2 2 None))
              = remove1 0 (pending_requests example_requesting_link)
   \<and> (\<exists>l'. request_timed_out 200 0 (fst (handle_response 170 example_requesting_link
                  (PyBytes (replicate 16 0x33)) (PyBytes [0x6F, 0x6B]) 2 2 None))
               = (l', [], Some ValueError)
             \<and> map_option rstatus (receipt_at l' 0) = Some FAILED)"
    using request_timed_out_unconditional_remove
      [where l = example_requesting_link and a = 0 and rid = "PyBytes (replicate 16 0x33)"
         and now = 170 and resp = "PyBytes [0x6F, 0x6B]" and rsize = 2 and rtsize = 2
         and md = None and later = 200]
      a3 by blast
  have c3': "pending_requests (fst (handle_response 170 example_requesting_link
                  (PyBytes (replicate 16 0x33)) (PyBytes [0x6F, 0x6B]) 2 2 None)) = []"
    using c3 by (simp add: example_requesting_link_def)
  show ?thesis using a0 c0 a1 c1 a2 c2 a3 c3 c3' by blast
qed

section \<open>A link proof with an invalid signature\<close>

lemma validate_proof_body_invalid:
  assumes st: "status l = PENDING" and ini: "initiator l" and dst: "destination l = Some d"
    and md: "mode_from_lp_packet e p = mode l" and en: "mode l = MODE_AES256_CBC"
    and len: "(length (data p) = SIGLENGTH e div 8 + ECPUBSIZE div 2 \<and> sb = [] \<and> evm = [])
              \<or> (length (data p) = SIGLENGTH e div 8 + ECPUBSIZE div 2 + LINK_MTU_SIZE
                  \<and> mtu_from_lp_packet e p = Some cm \<and> signalling_bytes cm (mode l) = Inr sb
                  \<and> evm = [Log LOG_DEBUG (ConfirmedLinkMtu cm)])"
    and k1: "x25519_from_public_bytes e
               (proof_peer_pub_bytes e (take (SIGLENGTH e div 8 + ECPUBSIZE div 2) (data p))) = Some k"
    and k2: "ed25519_from_public_bytes e (proof_peer_sig_pub_bytes d) = Some sk"
    and k3: "prv l = Some pv" and k4: "exchange e pv k = Some sh"
    and k5: "hkdf e 64 sh (link_id l) = Some dk"
    and bad: "\<not> identity_validate e (identity_public_key d)
                (proof_signature e (take (SIGLENGTH e div 8 + ECPUBSIZE div 2) (data p)))
                (proof_signed_data e l d (take (SIGLENGTH e div 8 + ECPUBSIZE div 2) (data p)) sb)"
  shows "validate_proof_body e now l p =
           (l\<lparr>peer_pub_bytes := Some (proof_peer_pub_bytes e
                                        (take (SIGLENGTH e div 8 + ECPUBSIZE div 2) (data p))),
              peer_pub := Some k,
              peer_sig_pub_bytes := Some (proof_peer_sig_pub_bytes d),
              peer_sig_pub := Some sk,
              status := HANDSHAKE,
              shared_key := Some sh,
              derived_key := Some dk,
              establishment_cost := establishment_cost l + int (length (raw p))\<rparr>,
            [Log LOG_DEBUG (ValidatingProofMode (mode l))] @ evm
              @ [Log LOG_DEBUG InvalidProofSignatureIgnoring],
            None)"
proof -
  have n128: "MODE_AES256_CBC \<noteq> MODE_AES128_CBC"
    by (simp add: MODE_AES256_CBC_def MODE_AES128_CBC_def)
  from len show ?thesis
  proof
    assume a: "length (data p) = SIGLENGTH e div 8 + ECPUBSIZE div 2 \<and> sb = [] \<and> evm = []"
    then have t: "take (SIGLENGTH e div 8 + ECPUBSIZE div 2) (data p) = data p" by simp
    have nl: "length (data p) \<noteq> SIGLENGTH e div 8 + ECPUBSIZE div 2 + LINK_MTU_SIZE"
      using a by (simp add: LINK_MTU_SIZE_def)
    show ?thesis
      using st ini dst md en a k1 k2 k3 k4 k5 bad nl n128 unfolding t
      by (simp add: validate_proof_body_def Let_def load_peer_def handshake_def proof_signed_data_def)
  next
    assume a: "length (data p) = SIGLENGTH e div 8 + ECPUBSIZE div 2 + LINK_MTU_SIZE
                  \<and> mtu_from_lp_packet e p = Some cm \<and> signalling_bytes cm (mode l) = Inr sb
                  \<and> evm = [Log LOG_DEBUG (ConfirmedLinkMtu cm)]"
    have tl: "length (take (SIGLENGTH e div 8 + ECPUBSIZE div 2) (data p))
                = SIGLENGTH e div 8 + ECPUBSIZE div 2"
      using a by simp
    show ?thesis
      using st ini dst md en a k1 k2 k3 k4 k5 bad n128 tl
      by (simp add: validate_proof_body_def Let_def load_peer_def handshake_def proof_signed_data_def)
  qed
qed

text \<open>
  Claim C1, as amended.  When an initiator in \<open>PENDING\<close> processes a link proof that gets as
  far as the signature test (the mode matches, the length is that of a proof with or without
  signalling, the peer keys load and the handshake derives a key) and the signature does not
  verify over \<open>link_id + peer_pub_bytes + peer_sig_pub_bytes + signalling_bytes\<close>, then
  \<open>validate_proof\<close> logs "Invalid link proof signature ... Ignoring" and sends no packet, and
  the Link is left in \<open>HANDSHAKE\<close>, where \<open>handshake()\<close> put it: it is not moved to
  \<open>CLOSED\<close>.
\<close>

theorem validate_proof_invalid_signature:
  assumes "status l = PENDING" and "initiator l" and "destination l = Some d"
    and "mode_from_lp_packet e p = mode l" and "mode l = MODE_AES256_CBC"
    and "(length (data p) = SIGLENGTH e div 8 + ECPUBSIZE div 2 \<and> sb = [] \<and> evm = [])
         \<or> (length (data p) = SIGLENGTH e div 8 + ECPUBSIZE div 2 + LINK_MTU_SIZE
             \<and> mtu_from_lp_packet e p = Some cm \<and> signalling_bytes cm (mode l) = Inr sb
             \<and> evm = [Log LOG_DEBUG (ConfirmedLinkMtu cm)])"
    and "x25519_from_public_bytes e
           (proof_peer_pub_bytes e (take (SIGLENGTH e div 8 + ECPUBSIZE div 2) (data p))) = Some k"
    and "ed25519_from_public_bytes e (proof_peer_sig_pub_bytes d) = Some sk"
    and "prv l = Some pv" and "exchange e pv k = Some sh"
    and "hkdf e 64 sh (link_id l) = Some dk"
    and "\<not> identity_validate e (identity_public_key d)
            (proof_signature e (take (SIGLENGTH e div 8 + ECPUBSIZE div 2) (data p)))
            (proof_signed_data e l d (take (SIGLENGTH e div 8 + ECPUBSIZE div 2) (data p)) sb)"
  shows "validate_proof e now l p =
           (l\<lparr>peer_pub_bytes := Some (proof_peer_pub_bytes e
                                        (take (SIGLENGTH e div 8 + ECPUBSIZE div 2) (data p))),
              peer_pub := Some k,
              peer_sig_pub_bytes := Some (proof_peer_sig_pub_bytes d),
              peer_sig_pub := Some sk,
              status := HANDSHAKE,
              shared_key := Some sh,
              derived_key := Some dk,
              establishment_cost := establishment_cost l + int (length (raw p))\<rparr>,
            [Log LOG_DEBUG (ValidatingProofMode (mode l))] @ evm
              @ [Log LOG_DEBUG InvalidProofSignatureIgnoring])
         \<and> status (fst (validate_proof e now l p)) = HANDSHAKE
         \<and> filter is_send (snd (validate_proof e now l p)) = []
         \<and> list_all is_log (snd (validate_proof e now l p))"
proof -
  have ev: "evm = [] \<or> evm = [Log LOG_DEBUG (ConfirmedLinkMtu cm)]" using assms(6) by blast
  have b: "validate_proof_body e now l p =
           (l\<lparr>peer_pub_bytes := Some (proof_peer_pub_bytes e
                                        (take (SIGLENGTH e div 8 + ECPUBSIZE div 2) (data p))),
              peer_pub := Some k,
              peer_sig_pub_bytes := Some (proof_peer_sig_pub_bytes d),
              peer_sig_pub := Some sk,
              status := HANDSHAKE,
              shared_key := Some sh,
              derived_key := Some dk,
              establishment_cost := establishment_cost l + int (length (raw p))\<rparr>,
            [Log LOG_DEBUG (ValidatingProofMode (mode l))] @ evm
              @ [Log LOG_DEBUG InvalidProofSignatureIgnoring],
            None)"
    by (rule validate_proof_body_invalid [OF assms])
  show ?thesis unfolding validate_proof_def b using ev by auto
qed

theorem validate_proof_invalid_signature_witness:
  "status (fst (validate_proof example_env 101 example_link
             (inbound PROOF LRPROOF (replicate 64 0x00 @ replicate 32 0x05 @ [0x20, 0x01, 0xF4])
                (Some 1)))) = HANDSHAKE
   \<and> snd (validate_proof example_env 101 example_link
             (inbound PROOF LRPROOF (replicate 64 0x00 @ replicate 32 0x05 @ [0x20, 0x01, 0xF4])
                (Some 1)))
       = [Log LOG_DEBUG (ValidatingProofMode 1), Log LOG_DEBUG (ConfirmedLinkMtu 500),
          Log LOG_DEBUG InvalidProofSignatureIgnoring]"
proof -
  let ?p = "inbound PROOF LRPROOF (replicate 64 0x00 @ replicate 32 0x05 @ [0x20, 0x01, 0xF4])
              (Some 1)"
  let ?d = "\<lparr>direction = OUT, links_has_self = False, proof_strategy = PROVE_NONE,
            proof_requested = None, identity_public_key = replicate 32 0x0A @ replicate 32 0x0B,
            request_handlers = []\<rparr>"
  have n: "SIGLENGTH example_env div 8 + ECPUBSIZE div 2 = 96"
    by (simp add: example_env_def ECPUBSIZE_def)
  have dp: "data ?p = replicate 64 0x00 @ replicate 32 0x05 @ [0x20, 0x01, 0xF4]"
    by (simp add: inbound_def)
  have h1: "status example_link = PENDING" and h2: "initiator example_link"
    and h3: "destination example_link = Some ?d" and h5: "mode example_link = MODE_AES256_CBC"
    and h9: "prv example_link = Some (replicate 32 0x01)"
    by (simp_all add: example_link_def)
  have h4: "mode_from_lp_packet example_env ?p = mode example_link"
    unfolding mode_from_lp_packet_def n dp h5
    by (simp add: nth_append MODE_AES256_CBC_def drop_bit_eq_div)
  have m: "mtu_from_lp_packet example_env ?p = Some 500"
    unfolding mtu_from_lp_packet_def n dp
    by (simp add: LINK_MTU_SIZE_def MTU_BYTEMASK_def)
  have s: "signalling_bytes 500 (mode example_link) = Inr [0x20, 0x01, 0xF4]"
    unfolding h5
    by (simp add: signalling_bytes_def ENABLED_MODES_def MODE_AES256_CBC_def MTU_BYTEMASK_def
        MODE_BYTEMASK_def struct_pack_I_def byte_of_def drop_bit_eq_div)
  have h6: "(length (data ?p) = SIGLENGTH example_env div 8 + ECPUBSIZE div 2
               \<and> [0x20, 0x01, 0xF4] = ([]::bytes)
               \<and> [Log LOG_DEBUG (ConfirmedLinkMtu 500)] = [])
            \<or> (length (data ?p) = SIGLENGTH example_env div 8 + ECPUBSIZE div 2 + LINK_MTU_SIZE
                \<and> mtu_from_lp_packet example_env ?p = Some 500
                \<and> signalling_bytes 500 (mode example_link) = Inr [0x20, 0x01, 0xF4]
                \<and> [Log LOG_DEBUG (ConfirmedLinkMtu 500)] = [Log LOG_DEBUG (ConfirmedLinkMtu 500)])"
    using m s unfolding n dp by (simp add: LINK_MTU_SIZE_def)
  have t: "take (SIGLENGTH example_env div 8 + ECPUBSIZE div 2) (data ?p)
             = replicate 64 0x00 @ replicate 32 0x05"
    unfolding n dp by simp
  have pp: "proof_peer_pub_bytes example_env (replicate 64 0x00 @ replicate 32 0x05)
              = replicate 32 0x05"
    by (simp add: proof_peer_pub_bytes_def example_env_def ECPUBSIZE_def)
  have h7: "x25519_from_public_bytes example_env
              (proof_peer_pub_bytes example_env
                 (take (SIGLENGTH example_env div 8 + ECPUBSIZE div 2) (data ?p)))
            = Some (replicate 32 0x05)"
    unfolding t pp by (simp add: example_env_def)
  have ps: "proof_peer_sig_pub_bytes ?d = replicate 32 0x0B"
    by (simp add: proof_peer_sig_pub_bytes_def ECPUBSIZE_def)
  have h8: "ed25519_from_public_bytes example_env (proof_peer_sig_pub_bytes ?d)
              = Some (replicate 32 0x0B)"
    unfolding ps by (simp add: example_env_def)
  have h10: "exchange example_env (replicate 32 0x01) (replicate 32 0x05)
               = Some (replicate 32 0x01 @ replicate 32 0x05)"
    by (simp add: example_env_def)
  have h11: "hkdf example_env 64 (replicate 32 0x01 @ replicate 32 0x05) (link_id example_link)
               = Some (replicate 32 0x01 @ replicate 32 0x05)"
    by (simp add: example_env_def)
  have h12: "\<not> identity_validate example_env (identity_public_key ?d)
               (proof_signature example_env
                  (take (SIGLENGTH example_env div 8 + ECPUBSIZE div 2) (data ?p)))
               (proof_signed_data example_env example_link ?d
                  (take (SIGLENGTH example_env div 8 + ECPUBSIZE div 2) (data ?p))
                  [0x20, 0x01, 0xF4])"
    unfolding t by (simp add: proof_signature_def example_env_def)
  from validate_proof_invalid_signature [OF h1 h2 h3 h4 h5 h6 h7 h8 h9 h10 h11 h12, of 101]
  show ?thesis unfolding h5 by (simp add: MODE_AES256_CBC_def)
qed

text \<open>The claim as written fails: an initiator that receives a proof with a wrong signature
  ends in \<open>HANDSHAKE\<close>, not in \<open>CLOSED\<close>.\<close>

theorem validate_proof_invalid_signature_counterexample:
  "initiator example_link \<and> status example_link = PENDING
   \<and> \<not> identity_validate example_env (replicate 32 0x0A @ replicate 32 0x0B)
         (replicate 64 0x00)
         (link_id example_link @ replicate 32 0x05 @ replicate 32 0x0B @ [0x20, 0x01, 0xF4])
   \<and> status (fst (validate_proof example_env 101 example_link
             (inbound PROOF LRPROOF (replicate 64 0x00 @ replicate 32 0x05 @ [0x20, 0x01, 0xF4])
                (Some 1)))) \<noteq> CLOSED"
  by (simp add: validate_proof_def validate_proof_body_def mode_from_lp_packet_def
      mtu_from_lp_packet_def signalling_bytes_def struct_pack_I_def byte_of_def
      load_peer_def handshake_def proof_peer_pub_bytes_def proof_peer_sig_pub_bytes_def
      proof_signature_def proof_signed_data_def Let_def example_env_def example_link_def
      inbound_def ECPUBSIZE_def LINK_MTU_SIZE_def MTU_BYTEMASK_def MODE_BYTEMASK_def
      ENABLED_MODES_def MODE_AES256_CBC_def MODE_AES128_CBC_def nth_append drop_bit_eq_div)

section \<open>Closed forms of the ingress steps\<close>

lemma decrypt_fst: "fst (decrypt e l ct) = l\<lparr>token := decrypt_token e l\<rparr>"
proof (cases "token l")
  case None
  note n = this
  show ?thesis
  proof (cases "token_new e (derived_key l)")
    case None
    have "l = l\<lparr>token := token l\<rparr>" by simp
    then have "l = l\<lparr>token := None\<rparr>" using n by simp
    then show ?thesis using n None by (simp add: decrypt_def decrypt_token_def)
  next
    case (Some t)
    then show ?thesis using n by (simp add: decrypt_def decrypt_token_def split: option.split)
  qed
next
  case (Some t)
  have "l = l\<lparr>token := token l\<rparr>" by simp
  then have "l = l\<lparr>token := Some t\<rparr>" using Some by simp
  then show ?thesis using Some by (simp add: decrypt_def decrypt_token_def split: option.split)
qed

lemma decrypt_eq:
  "decrypt e l ct =
     (l\<lparr>token := decrypt_token e l\<rparr>,
      (if snd (snd (decrypt e l ct)) = None then [Log LOG_ERROR DecryptionFailed] else []),
      snd (snd (decrypt e l ct)))"
  using decrypt_fst [of e l ct] decrypt_events [of e l ct]
  by (cases "decrypt e l ct") simp

lemma receive_accounting_eq:
  "receive_accounting now l p =
     l\<lparr>last_inbound := now,
       last_data := (if pcontext p \<noteq> KEEPALIVE_CTX then now else last_data l),
       rx := rx l + 1,
       rxbytes := rxbytes l + int (length (data p)),
       status := (if status l = STALE then ACTIVE else status l)\<rparr>"
proof (cases "pcontext p \<noteq> KEEPALIVE_CTX")
  case True
  note c = this
  show ?thesis
  proof (cases "status l = STALE")
    case True
    then show ?thesis using c by (simp add: receive_accounting_def Let_def)
  next
    case False
    have "l\<lparr>status := status l\<rparr> = l" by simp
    then show ?thesis using c False by (simp add: receive_accounting_def Let_def)
  qed
next
  case False
  note c = this
  show ?thesis
  proof (cases "status l = STALE")
    case True
    then show ?thesis using c by (simp add: receive_accounting_def Let_def)
  next
    case False
    then show ?thesis using c by (simp add: receive_accounting_def Let_def)
  qed
qed

lemma phy_stats_eq:
  "Link__update_phy_stats e l p qs fu =
     l\<lparr>rssi := (if track_phy_stats l \<or> fu
                 then phy_value qs (pkt_rssi p) (get_packet_rssi e (packet_hash p)) (rssi l)
                 else rssi l),
       snr := (if track_phy_stats l \<or> fu
               then phy_value qs (pkt_snr p) (get_packet_snr e (packet_hash p)) (snr l)
               else snr l),
       q := (if track_phy_stats l \<or> fu
             then phy_value qs (pkt_q p) (get_packet_q e (packet_hash p)) (q l)
             else q l)\<rparr>"
  by (cases "track_phy_stats l \<or> fu") (simp_all add: phy_stats_state)

section \<open>A packet that fails to decrypt\<close>

lemma decrypt_failed:
  assumes "snd (snd (decrypt e l ct)) = None"
  shows "decrypt e l ct = (l\<lparr>token := decrypt_token e l\<rparr>, [Log LOG_ERROR DecryptionFailed], None)"
  using decrypt_eq [of e l ct] assms by simp

lemma decrypting_context_cong:
  "initiator l' = initiator l \<Longrightarrow> channel l' = channel l
     \<Longrightarrow> decrypting_context l' c = decrypting_context l c"
  by (cases c) simp_all

lemma decrypting_context_not_keepalive: "decrypting_context l c \<Longrightarrow> c \<noteq> KEEPALIVE_CTX"
  by (cases c) simp_all

lemma dispatch_decrypt_failure:
  assumes dc: "decrypting_context x (pcontext p)" and ty: "packet_type p = DATA"
    and nch: "pcontext p \<noteq> CHANNEL"
    and d: "decrypt e x (data p) = (x\<lparr>token := tk\<rparr>, [Log LOG_ERROR DecryptionFailed], None)"
  shows "receive_dispatch e now x p =
           ((if pcontext p = LINKCLOSE \<or> pcontext p = LRRTT
             then Link__update_phy_stats e (x\<lparr>token := tk\<rparr>) p True False
             else x\<lparr>token := tk\<rparr>),
            [Log LOG_ERROR DecryptionFailed],
            None)"
proof (cases "pcontext p")
  case NONE
  then show ?thesis using ty d by (simp add: receive_dispatch_def recv_none_def)
next
  case LINKIDENTIFY
  then show ?thesis using ty d by (simp add: receive_dispatch_def recv_linkidentify_def)
next
  case REQUEST
  then show ?thesis using ty d by (simp add: receive_dispatch_def recv_request_def)
next
  case RESPONSE
  then show ?thesis using ty d by (simp add: receive_dispatch_def recv_response_def)
next
  case LINKCLOSE
  then show ?thesis using ty d
    by (simp add: receive_dispatch_def recv_linkclose_def teardown_packet_def)
next
  case RESOURCE_ADV
  then show ?thesis using ty d by (simp add: receive_dispatch_def recv_resource_adv_def)
next
  case RESOURCE_REQ
  then show ?thesis using ty d by (simp add: receive_dispatch_def recv_resource_req_def)
next
  case RESOURCE_HMU
  then show ?thesis using ty d by (simp add: receive_dispatch_def recv_resource_hmu_def)
next
  case RESOURCE_ICL
  then show ?thesis using ty d by (simp add: receive_dispatch_def recv_resource_icl_def)
next
  case RESOURCE_RCL
  then show ?thesis using ty d by (simp add: receive_dispatch_def recv_resource_rcl_def)
next
  case LRRTT
  then show ?thesis using ty d dc
    by (simp add: receive_dispatch_def recv_lrrtt_def rtt_packet_def)
next
  case CHANNEL
  then show ?thesis using nch by simp
next
  case RESOURCE
  then show ?thesis using dc by simp
next
  case RESOURCE_PRF
  then show ?thesis using dc by simp
next
  case KEEPALIVE_CTX
  then show ?thesis using dc by simp
next
  case LRPROOF
  then show ?thesis using dc by simp
next
  case (OTHER_CONTEXT n)
  then show ?thesis using dc by simp
qed

lemma phy_self: "\<exists>a b c. r = r\<lparr>rssi := a, snr := b, q := c\<rparr>"
proof -
  have "r = r\<lparr>rssi := rssi r, snr := snr r, q := q r\<rparr>" by simp
  then show ?thesis by blast
qed

lemma accounted_decrypt_failure:
  assumes nk: "pcontext p \<noteq> KEEPALIVE_CTX"
    and fail: "snd (snd (decrypt e l (data p))) = None"
    and x: "x = receive_accounting now (l\<lparr>watchdog_lock := True\<rparr>) p"
  shows "x = l\<lparr>watchdog_lock := True, last_inbound := now, last_data := now,
                  rx := rx l + 1, rxbytes := rxbytes l + int (length (data p)),
                  status := (if status l = STALE then ACTIVE else status l)\<rparr>"
    and "decrypt e x (data p)
           = (x\<lparr>token := decrypt_token e l\<rparr>, [Log LOG_ERROR DecryptionFailed], None)"
    and "decrypt e (x\<lparr>last_outbound := t, last_data := t\<rparr>) (data p)
           = (x\<lparr>last_outbound := t, last_data := t, token := decrypt_token e l\<rparr>,
              [Log LOG_ERROR DecryptionFailed], None)"
proof -
  show xe: "x = l\<lparr>watchdog_lock := True, last_inbound := now, last_data := now,
                  rx := rx l + 1, rxbytes := rxbytes l + int (length (data p)),
                  status := (if status l = STALE then ACTIVE else status l)\<rparr>"
    unfolding x receive_accounting_eq using nk by simp
  have "token x = token l" and "derived_key x = derived_key l" by (simp_all add: xe)
  then have tk: "decrypt_token e x = decrypt_token e l"
    by (simp add: decrypt_token_def split: option.split)
  have "snd (snd (decrypt e x (data p))) = snd (snd (decrypt e l (data p)))"
    by (rule decrypt_result_indep) (simp_all add: xe)
  then show "decrypt e x (data p)
                  = (x\<lparr>token := decrypt_token e l\<rparr>, [Log LOG_ERROR DecryptionFailed], None)"
    using decrypt_failed [of e x "data p"] fail tk by simp
  define y where "y = x\<lparr>last_outbound := t, last_data := t\<rparr>"
  have "token y = token l" and "derived_key y = derived_key l" by (simp_all add: y_def xe)
  then have tky: "decrypt_token e y = decrypt_token e l"
    by (simp add: decrypt_token_def split: option.split)
  have "snd (snd (decrypt e y (data p))) = snd (snd (decrypt e l (data p)))"
    by (rule decrypt_result_indep) (simp_all add: y_def xe)
  then have "decrypt e y (data p)
                  = (y\<lparr>token := decrypt_token e l\<rparr>, [Log LOG_ERROR DecryptionFailed], None)"
    using decrypt_failed [of e y "data p"] fail tky by simp
  then show "decrypt e (x\<lparr>last_outbound := t, last_data := t\<rparr>) (data p)
           = (x\<lparr>last_outbound := t, last_data := t, token := decrypt_token e l\<rparr>,
              [Log LOG_ERROR DecryptionFailed], None)"
    by (simp add: y_def)
qed

lemma receive_decrypt_failure_eq:
  assumes nc: "status l \<noteq> CLOSED" and ifc: "receiving_interface p = attached_interface l"
    and ty: "packet_type p = DATA" and dc: "decrypting_context l (pcontext p)"
    and nch: "pcontext p \<noteq> CHANNEL"
    and fail: "snd (snd (decrypt e l (data p))) = None"
  shows "\<exists>a b c. receive e now l p =
           (l\<lparr>last_inbound := now, last_data := now, rx := rx l + 1,
              rxbytes := rxbytes l + int (length (data p)),
              status := (if status l = STALE then ACTIVE else status l),
              token := decrypt_token e l, watchdog_lock := False,
              rssi := a, snr := b, q := c\<rparr>,
            [Log LOG_ERROR DecryptionFailed],
            None)"
proof -
  define x where "x = receive_accounting now (l\<lparr>watchdog_lock := True\<rparr>) p"
  have nk: "pcontext p \<noteq> KEEPALIVE_CTX" using dc by (rule decrypting_context_not_keepalive)
  note xe = accounted_decrypt_failure(1) [OF nk fail x_def]
  note d = accounted_decrypt_failure(2) [OF nk fail x_def]
  have dcx: "decrypting_context x (pcontext p)"
    using dc decrypting_context_cong [of x l "pcontext p"] by (simp add: xe)
  note disp = dispatch_decrypt_failure [OF dcx ty nch d, where now = now]
  define y where "y = (if pcontext p = LINKCLOSE \<or> pcontext p = LRRTT
             then Link__update_phy_stats e (x\<lparr>token := decrypt_token e l\<rparr>) p True False
             else x\<lparr>token := decrypt_token e l\<rparr>)"
  have r: "receive e now l p =
             (y\<lparr>watchdog_lock := False\<rparr>, [Log LOG_ERROR DecryptionFailed], None)"
    using nc ifc nk disp unfolding y_def x_def by (simp add: receive_def Let_def)
  have "\<exists>a b c. y = (x\<lparr>token := decrypt_token e l\<rparr>)\<lparr>rssi := a, snr := b, q := c\<rparr>"
  proof (cases "pcontext p = LINKCLOSE \<or> pcontext p = LRRTT")
    case True
    then have "y = Link__update_phy_stats e (x\<lparr>token := decrypt_token e l\<rparr>) p True False"
      by (simp add: y_def)
    then show ?thesis by (subst (asm) phy_stats_eq) blast
  next
    case False
    then have "y = x\<lparr>token := decrypt_token e l\<rparr>" by (simp add: y_def)
    then show ?thesis using phy_self [of "x\<lparr>token := decrypt_token e l\<rparr>"] by simp
  qed
  then obtain a b c where "y = (x\<lparr>token := decrypt_token e l\<rparr>)\<lparr>rssi := a, snr := b, q := c\<rparr>"
    by blast
  then have "y\<lparr>watchdog_lock := False\<rparr> =
               l\<lparr>last_inbound := now, last_data := now, rx := rx l + 1,
                 rxbytes := rxbytes l + int (length (data p)),
                 status := (if status l = STALE then ACTIVE else status l),
                 token := decrypt_token e l, watchdog_lock := False,
                 rssi := a, snr := b, q := c\<rparr>"
    by (simp add: xe)
  then show ?thesis using r by auto
qed

lemma prove_packet_signed:
  assumes "sig_prv x = Some k" and "sign e k (packet_hash p) = Some sg"
  shows "prove_packet e now x p =
           (x\<lparr>last_outbound := now, last_data := now\<rparr>,
            [Send PROOF NONE (packet_hash p @ sg)], None)"
  using assms by (simp add: prove_packet_def had_outbound_def Let_def)

lemma prove_packet_raises:
  assumes "prove_packet e now x p = (x', ev, Some err)"
  shows "x' = x \<and> ev = []"
  using assms by (simp add: prove_packet_def Let_def split: option.split_asm)

lemma prove_packet_returns:
  assumes "prove_packet e now x p = (x', ev, None)"
  shows "\<exists>sg. x' = x\<lparr>last_outbound := now, last_data := now\<rparr>
           \<and> ev = [Send PROOF NONE (packet_hash p @ sg)]"
  using assms by (auto simp add: prove_packet_def had_outbound_def Let_def split: option.split_asm)

lemma receive_channel_decrypt_failure_eq:
  assumes nc: "status l \<noteq> CLOSED" and ifc: "receiving_interface p = attached_interface l"
    and ty: "packet_type p = DATA" and ch: "pcontext p = CHANNEL" and op: "channel l"
    and k: "sig_prv l = Some k" and sg: "sign e k (packet_hash p) = Some sg"
    and fail: "snd (snd (decrypt e l (data p))) = None"
  shows "receive e now l p =
           (l\<lparr>last_inbound := now, last_data := now, last_outbound := now, rx := rx l + 1,
              rxbytes := rxbytes l + int (length (data p)),
              status := (if status l = STALE then ACTIVE else status l),
              token := decrypt_token e l, watchdog_lock := False\<rparr>,
            [Send PROOF NONE (packet_hash p @ sg), Log LOG_ERROR DecryptionFailed],
            None)"
proof -
  define x where "x = receive_accounting now (l\<lparr>watchdog_lock := True\<rparr>) p"
  have nk: "pcontext p \<noteq> KEEPALIVE_CTX" using ch by simp
  note xe = accounted_decrypt_failure(1) [OF nk fail x_def]
  note d = accounted_decrypt_failure(3) [OF nk fail x_def, of now]
  have kx: "sig_prv x = Some k" and cx: "channel x" using k op by (simp_all add: xe)
  note pp = prove_packet_signed [OF kx sg, of now]
  have disp: "receive_dispatch e now x p =
                (x\<lparr>last_outbound := now, last_data := now, token := decrypt_token e l\<rparr>,
                 [Send PROOF NONE (packet_hash p @ sg), Log LOG_ERROR DecryptionFailed], None)"
    using ty ch cx by (simp add: receive_dispatch_def recv_channel_def pp d)
  have r: "receive e now l p =
             (x\<lparr>last_outbound := now, last_data := now, token := decrypt_token e l,
                watchdog_lock := False\<rparr>,
              [Send PROOF NONE (packet_hash p @ sg), Log LOG_ERROR DecryptionFailed], None)"
    using nc ifc nk disp unfolding x_def by (simp add: receive_def Let_def)
  show ?thesis unfolding r by (simp add: xe)
qed

lemma receive_channel_decrypt_failure_shape:
  assumes nc: "status l \<noteq> CLOSED" and ifc: "receiving_interface p = attached_interface l"
    and ty: "packet_type p = DATA" and ch: "pcontext p = CHANNEL"
    and fail: "snd (snd (decrypt e l (data p))) = None"
  shows "last_inbound (fst (receive e now l p)) = now"
    and "filter is_callback (fst (snd (receive e now l p))) = []"
proof -
  define x where "x = receive_accounting now (l\<lparr>watchdog_lock := True\<rparr>) p"
  have nk: "pcontext p \<noteq> KEEPALIVE_CTX" using ch by simp
  note xe = accounted_decrypt_failure(1) [OF nk fail x_def]
  note d = accounted_decrypt_failure(3) [OF nk fail x_def, of now]
  have li: "last_inbound x = now" by (simp add: xe)
  have disp: "receive_dispatch e now x p = recv_channel e now x p"
    using ty ch by (simp add: receive_dispatch_def)
  have "\<exists>l' ev r. recv_channel e now x p = (l', ev, r) \<and> last_inbound l' = now
          \<and> filter is_callback ev = []"
  proof (cases "channel x")
    case False
    then show ?thesis using li by (simp add: recv_channel_def)
  next
    case True
    obtain x' ev0 r0 where pp: "prove_packet e now x p = (x', ev0, r0)"
      by (cases "prove_packet e now x p") auto
    show ?thesis
    proof (cases r0)
      case (Some err)
      then show ?thesis using True pp prove_packet_raises [of e now x p x' ev0 err] li
        by (simp add: recv_channel_def)
    next
      case None
      then obtain sg where "x' = x\<lparr>last_outbound := now, last_data := now\<rparr>"
        and "ev0 = [Send PROOF NONE (packet_hash p @ sg)]"
        using pp prove_packet_returns [of e now x p x' ev0] by blast
      then show ?thesis using True pp None d li by (simp add: recv_channel_def)
    qed
  qed
  then obtain l' ev r where rc: "recv_channel e now x p = (l', ev, r)"
    and l': "last_inbound l' = now" and ev: "filter is_callback ev = []" by blast
  have "fst (receive e now l p) = (if r = None then l'\<lparr>watchdog_lock := False\<rparr> else l')
        \<and> fst (snd (receive e now l p)) = ev"
    using nc ifc nk disp rc unfolding x_def
    by (cases r) (simp_all add: receive_def Let_def)
  then show "last_inbound (fst (receive e now l p)) = now"
    and "filter is_callback (fst (snd (receive e now l p))) = []"
    using l' ev by simp_all
qed

text \<open>
  Claim C3, as amended.  An inbound \<open>DATA\<close> packet that \<open>receive\<close> tries to decrypt and
  cannot is not dispatched: no callback runs, no request, resource or identity state changes,
  and \<open>decrypt\<close> logs one error.  The ingress bookkeeping is done before decryption, though:
  \<open>last_inbound\<close> and \<open>last_data\<close> are set to the current time, \<open>rx\<close> and \<open>rxbytes\<close> are
  counted, a \<open>STALE\<close> Link is \<open>ACTIVE\<close> again, the token built on first use stays, and the
  physical-layer statistics may be refreshed.  On every context but \<open>CHANNEL\<close> no packet is
  sent.  A \<open>CHANNEL\<close> packet on a Link with an open channel is proved before it is decrypted:
  by the time decryption fails, \<open>prove_packet\<close> has sent the \<open>PROOF\<close> packet with the packet
  hash and its signature and has set \<open>last_outbound\<close> and \<open>last_data\<close> to the current time.
\<close>

theorem receive_decrypt_failure:
  assumes "status l \<noteq> CLOSED" and "receiving_interface p = attached_interface l"
    and "packet_type p = DATA" and "decrypting_context l (pcontext p)"
    and "snd (snd (decrypt e l (data p))) = None"
  shows "(pcontext p \<noteq> CHANNEL \<longrightarrow>
            (\<exists>a b c. receive e now l p =
               (l\<lparr>last_inbound := now, last_data := now, rx := rx l + 1,
                  rxbytes := rxbytes l + int (length (data p)),
                  status := (if status l = STALE then ACTIVE else status l),
                  token := decrypt_token e l, watchdog_lock := False,
                  rssi := a, snr := b, q := c\<rparr>,
                [Log LOG_ERROR DecryptionFailed],
                None))
            \<and> filter is_send (fst (snd (receive e now l p))) = [])
         \<and> (pcontext p = CHANNEL \<and> sig_prv l = Some k \<and> sign e k (packet_hash p) = Some sg \<longrightarrow>
              receive e now l p =
                (l\<lparr>last_inbound := now, last_data := now, last_outbound := now,
                   rx := rx l + 1, rxbytes := rxbytes l + int (length (data p)),
                   status := (if status l = STALE then ACTIVE else status l),
                   token := decrypt_token e l, watchdog_lock := False\<rparr>,
                 [Send PROOF NONE (packet_hash p @ sg), Log LOG_ERROR DecryptionFailed],
                 None))
         \<and> last_inbound (fst (receive e now l p)) = now
         \<and> filter is_callback (fst (snd (receive e now l p))) = []"
proof (cases "pcontext p = CHANNEL")
  case False
  from receive_decrypt_failure_eq [OF assms(1-4) False assms(5), of now]
  obtain a b c where r: "receive e now l p =
           (l\<lparr>last_inbound := now, last_data := now, rx := rx l + 1,
              rxbytes := rxbytes l + int (length (data p)),
              status := (if status l = STALE then ACTIVE else status l),
              token := decrypt_token e l, watchdog_lock := False,
              rssi := a, snr := b, q := c\<rparr>,
            [Log LOG_ERROR DecryptionFailed],
            None)"
    by blast
  have "last_inbound (fst (receive e now l p)) = now"
    "filter is_send (fst (snd (receive e now l p))) = []"
    "filter is_callback (fst (snd (receive e now l p))) = []"
    unfolding r by simp_all
  then show ?thesis using r False by blast
next
  case True
  have op: "channel l" using assms(4) True by simp
  have a: "sig_prv l = Some k \<and> sign e k (packet_hash p) = Some sg \<longrightarrow>
              receive e now l p =
                (l\<lparr>last_inbound := now, last_data := now, last_outbound := now,
                   rx := rx l + 1, rxbytes := rxbytes l + int (length (data p)),
                   status := (if status l = STALE then ACTIVE else status l),
                   token := decrypt_token e l, watchdog_lock := False\<rparr>,
                 [Send PROOF NONE (packet_hash p @ sg), Log LOG_ERROR DecryptionFailed],
                 None)"
    using receive_channel_decrypt_failure_eq [OF assms(1-3) True op _ _ assms(5), of k sg now]
    by blast
  note b = receive_channel_decrypt_failure_shape [OF assms(1-3) True assms(5), of now]
  show ?thesis using True a b by blast
qed

theorem receive_decrypt_failure_witness:
  "status example_active_link \<noteq> CLOSED
   \<and> receiving_interface (inbound DATA NONE [0x00, 0x68, 0x69] (Some 1))
       = attached_interface example_active_link
   \<and> decrypting_context example_active_link NONE
   \<and> snd (snd (decrypt example_env example_active_link [0x00, 0x68, 0x69])) = None
   \<and> last_inbound (fst (receive example_env 200 example_active_link
                          (inbound DATA NONE [0x00, 0x68, 0x69] (Some 1)))) = 200
   \<and> fst (snd (receive example_env 200 example_active_link
                  (inbound DATA NONE [0x00, 0x68, 0x69] (Some 1))))
       = [Log LOG_ERROR DecryptionFailed]
   \<and> decrypting_context (example_active_link\<lparr>channel := True\<rparr>) CHANNEL
   \<and> sig_prv (example_active_link\<lparr>channel := True\<rparr>) = Some (replicate 32 0x02)
   \<and> sign example_env (replicate 32 0x02) (replicate 32 0x11) = Some (replicate 64 0x2A)
   \<and> fst (snd (receive example_env 200 (example_active_link\<lparr>channel := True\<rparr>)
                  (inbound DATA CHANNEL [0x00, 0x68, 0x69] (Some 1))))
       = [Send PROOF NONE (replicate 32 0x11 @ replicate 64 0x2A),
          Log LOG_ERROR DecryptionFailed]
   \<and> last_outbound (fst (receive example_env 200 (example_active_link\<lparr>channel := True\<rparr>)
                  (inbound DATA CHANNEL [0x00, 0x68, 0x69] (Some 1)))) = 200"
proof -
  let ?p = "inbound DATA NONE [0x00, 0x68, 0x69] (Some 1)"
  let ?q = "inbound DATA CHANNEL [0x00, 0x68, 0x69] (Some 1)"
  let ?m = "example_active_link\<lparr>channel := True\<rparr>"
  have h1: "status example_active_link \<noteq> CLOSED" by (simp add: example_active_link_def)
  have h2: "receiving_interface ?p = attached_interface example_active_link"
    by (simp add: example_active_link_def inbound_def)
  have h3: "packet_type ?p = DATA" by (simp add: inbound_def)
  have c: "pcontext ?p = NONE" and dp: "data ?p = [0x00, 0x68, 0x69]" by (simp_all add: inbound_def)
  have h4: "decrypting_context example_active_link (pcontext ?p)" unfolding c by simp
  have h5: "snd (snd (decrypt example_env example_active_link (data ?p))) = None"
    unfolding dp by (simp add: decrypt_def example_env_def example_active_link_def)
  have g1: "status ?m \<noteq> CLOSED" by (simp add: example_active_link_def)
  have g2: "receiving_interface ?q = attached_interface ?m"
    by (simp add: example_active_link_def inbound_def)
  have g3: "packet_type ?q = DATA" by (simp add: inbound_def)
  have cq: "pcontext ?q = CHANNEL" and dq: "data ?q = [0x00, 0x68, 0x69]"
    and hq: "packet_hash ?q = replicate 32 0x11" by (simp_all add: inbound_def)
  have g4: "decrypting_context ?m (pcontext ?q)" unfolding cq by simp
  have g5: "snd (snd (decrypt example_env ?m (data ?q))) = None"
    unfolding dq by (simp add: decrypt_def example_env_def example_active_link_def)
  have g6: "sig_prv ?m = Some (replicate 32 0x02)"
    by (simp add: example_active_link_def example_link_def)
  have g7: "sign example_env (replicate 32 0x02) (replicate 32 0x11) = Some (replicate 64 0x2A)"
    by (simp add: example_env_def)
  from receive_decrypt_failure [OF h1 h2 h3 h4 h5, where now = 200]
  have n: "last_inbound (fst (receive example_env 200 example_active_link ?p)) = 200
           \<and> fst (snd (receive example_env 200 example_active_link ?p))
               = [Log LOG_ERROR DecryptionFailed]"
    unfolding c by auto
  from receive_decrypt_failure [OF g1 g2 g3 g4 g5, where now = 200
      and k = "replicate 32 0x02" and sg = "replicate 64 0x2A"]
  have "receive example_env 200 ?m ?q =
          (?m\<lparr>last_inbound := 200, last_data := 200, last_outbound := 200,
              rx := rx ?m + 1, rxbytes := rxbytes ?m + int (length (data ?q)),
              status := (if status ?m = STALE then ACTIVE else status ?m),
              token := decrypt_token example_env ?m, watchdog_lock := False\<rparr>,
           [Send PROOF NONE (packet_hash ?q @ replicate 64 0x2A), Log LOG_ERROR DecryptionFailed],
           None)"
    using cq g6 g7 hq by simp
  then have m: "fst (snd (receive example_env 200 ?m ?q))
                  = [Send PROOF NONE (replicate 32 0x11 @ replicate 64 0x2A),
                     Log LOG_ERROR DecryptionFailed]
                \<and> last_outbound (fst (receive example_env 200 ?m ?q)) = 200"
    using hq by simp
  have g4': "decrypting_context ?m CHANNEL" by simp
  show ?thesis using h1 h2 h4 h5 n g4' g6 g7 m unfolding c dp by simp
qed

text \<open>The claim as written fails: a packet that does not decrypt still moves
  \<open>last_inbound\<close>.\<close>

theorem receive_decrypt_failure_counterexample:
  "snd (snd (decrypt example_env example_active_link
               (data (inbound DATA NONE [0x00, 0x68, 0x69] (Some 1))))) = None
   \<and> last_inbound example_active_link = 150
   \<and> last_inbound (fst (receive example_env 200 example_active_link
                          (inbound DATA NONE [0x00, 0x68, 0x69] (Some 1)))) = 200"
proof -
  let ?p = "inbound DATA NONE [0x00, 0x68, 0x69] (Some 1)"
  have h1: "status example_active_link \<noteq> CLOSED" by (simp add: example_active_link_def)
  have h2: "receiving_interface ?p = attached_interface example_active_link"
    by (simp add: example_active_link_def inbound_def)
  have h3: "packet_type ?p = DATA" by (simp add: inbound_def)
  have c: "pcontext ?p = NONE" and dp: "data ?p = [0x00, 0x68, 0x69]" by (simp_all add: inbound_def)
  have h4: "decrypting_context example_active_link (pcontext ?p)" unfolding c by simp
  have h4': "pcontext ?p \<noteq> CHANNEL" unfolding c by simp
  have h5: "snd (snd (decrypt example_env example_active_link (data ?p))) = None"
    unfolding dp by (simp add: decrypt_def example_env_def example_active_link_def)
  have b: "last_inbound example_active_link = 150" by (simp add: example_active_link_def)
  from receive_decrypt_failure_eq [OF h1 h2 h3 h4 h4' h5, where now = 200]
  obtain l' ev where "receive example_env 200 example_active_link ?p = (l', ev, None)"
    and "last_inbound l' = 200" by auto
  then show ?thesis using h5 b by simp
qed

section \<open>Who sends keep-alives\<close>

lemma ks_nonsend: "\<not> is_send x \<Longrightarrow> keepalive_sends (x # es) = keepalive_sends es"
  by (cases x) simp_all

lemma ks_append: "keepalive_sends (xs @ ys) = keepalive_sends xs @ keepalive_sends ys"
  by (induction xs rule: keepalive_sends.induct) simp_all

lemma ks_map: "(\<And>x. \<not> is_send (f x)) \<Longrightarrow> keepalive_sends (map f xs) = []"
  by (induction xs) (simp_all add: ks_nonsend)

lemma ks_link_closed_events: "keepalive_sends (link_closed_events l) = []"
  by (simp add: link_closed_events_def ks_append ks_map)

lemma ks_teardown: "keepalive_sends (snd (teardown now l)) = []"
  by (simp add: teardown_snd ks_append ks_link_closed_events)

lemma ks_decrypt: "keepalive_sends (fst (snd (decrypt e l ct))) = []"
  by (simp add: decrypt_events)

lemma decrypt_split:
  obtains l1 ev1 pt where "decrypt e l ct = (l1, ev1, pt)" and "keepalive_sends ev1 = []"
    and "initiator l1 = initiator l"
proof -
  obtain l1 ev1 pt where d: "decrypt e l ct = (l1, ev1, pt)" by (cases "decrypt e l ct") auto
  have "keepalive_sends ev1 = []" using ks_decrypt [of e l ct] d by simp
  moreover have "initiator l1 = initiator l" using decrypt_kept(2) [of e l ct] d by simp
  ultimately show ?thesis using d that by blast
qed

lemma ks_teardown_packet: "keepalive_sends (snd (teardown_packet e l p)) = []"
proof -
  obtain l1 ev1 pt where d: "decrypt e l (data p) = (l1, ev1, pt)" and k: "keepalive_sends ev1 = []"
    by (rule decrypt_split)
  show ?thesis using d k
    by (simp add: teardown_packet_def Let_def split_beta ks_append link_closed_snd
        ks_link_closed_events)
qed

lemma ks_rtt_packet: "keepalive_sends (snd (rtt_packet e now l p)) = []"
proof -
  obtain l1 ev1 pt where d: "decrypt e l (data p) = (l1, ev1, pt)" and k: "keepalive_sends ev1 = []"
    by (rule decrypt_split)
  have b: "\<And>x y. keepalive_sends (fst (snd (rtt_packet_body e now x y))) = []"
    by (simp add: rtt_packet_body_def Let_def split: option.split sum.split)
  show ?thesis
  proof (cases pt)
    case None
    then show ?thesis using d k by (simp add: rtt_packet_def)
  next
    case (Some y)
    obtain l2 ev2 r where bd: "rtt_packet_body e now l1 y = (l2, ev2, r)"
      by (cases "rtt_packet_body e now l1 y") auto
    have k2: "keepalive_sends ev2 = []" using b [of l1 y] bd by simp
    show ?thesis using d k Some bd k2 ks_teardown [of now l2]
      by (cases r) (simp_all add: rtt_packet_def split_beta ks_append)
  qed
qed

lemma ks_respond:
  "keepalive_sends ev0 = [] \<Longrightarrow>
     keepalive_sends (fst (snd (handle_request_respond e l rid resp ev0))) = []"
  by (simp add: handle_request_respond_def Let_def ks_append split: option.split)

lemma ks_handle_request: "keepalive_sends (fst (snd (handle_request e l rid u))) = []"
proof (cases "status l = ACTIVE")
  case False
  then show ?thesis by (simp add: handle_request_def)
next
  case True
  have r: "\<And>resp. keepalive_sends (fst (snd (handle_request_respond e l rid resp
               [Log LOG_DEBUG (HandlingRequest rid)]))) = []"
    by (rule ks_respond) simp
  show ?thesis using True
    by (simp add: handle_request_def Let_def r split: sum.split option.split pyobj.split)
qed

lemma ks_response_received: "keepalive_sends (snd (response_received now a r resp md)) = []"
  by (simp add: response_received_def Let_def split_beta ks_append split: option.split)

lemma ks_progress: "keepalive_sends (snd (response_resource_progress now a r h prog)) = []"
  by (simp add: response_resource_progress_def Let_def split_beta ks_append split: option.split)

lemma ks_handle_response: "keepalive_sends (snd (handle_response now l rid resp rsize rtsize md)) = []"
  by (simp add: handle_response_def Let_def split_beta ks_response_received list_remove_def
      split: option.split)

lemma ks_adv_loop: "keepalive_sends (snd (adv_response_loop e now pt rid as l)) = []"
  by (induction as arbitrary: l)
    (simp_all add: Let_def split_beta ks_append ks_progress split: option.split)

lemma ks_prove_packet: "keepalive_sends (fst (snd (prove_packet e now l p))) = []"
  by (simp add: prove_packet_def Let_def split: option.split)

lemma ks_prove_packet_split:
  obtains l' ev r where "prove_packet e now l p = (l', ev, r)" and "keepalive_sends ev = []"
proof -
  obtain l' ev r where a: "prove_packet e now l p = (l', ev, r)"
    by (cases "prove_packet e now l p") auto
  then have "keepalive_sends ev = []" using ks_prove_packet [of e now l p] by simp
  then show ?thesis using a that by blast
qed

lemma ks_recv_none: "keepalive_sends (fst (snd (recv_none e now l p))) = []"
proof -
  obtain l1 ev1 pt where d: "decrypt e l (data p) = (l1, ev1, pt)" and k: "keepalive_sends ev1 = []"
    by (rule decrypt_split)
  show ?thesis
  proof (cases pt)
    case None
    then show ?thesis using d k by (simp add: recv_none_def)
  next
    case (Some t)
    obtain l' ev r where pp: "prove_packet e now (Link__update_phy_stats e l1 p True False) p
                               = (l', ev, r)"
      and kp: "keepalive_sends ev = []"
      by (rule ks_prove_packet_split)
    show ?thesis using d k Some pp kp
      by (cases r) (simp_all add: recv_none_def Let_def ks_append split: option.split)
  qed
qed

lemma ks_recv_linkidentify: "keepalive_sends (fst (snd (recv_linkidentify e l p))) = []"
proof -
  obtain l1 ev1 pt where d: "decrypt e l (data p) = (l1, ev1, pt)" and k: "keepalive_sends ev1 = []"
    by (rule decrypt_split)
  show ?thesis using d k
    by (simp add: recv_linkidentify_def Let_def ks_append split: option.split)
qed

lemma ks_recv_request: "keepalive_sends (fst (snd (recv_request e l p))) = []"
proof -
  obtain l1 ev1 pt where d: "decrypt e l (data p) = (l1, ev1, pt)" and k: "keepalive_sends ev1 = []"
    by (rule decrypt_split)
  have h: "\<And>u. keepalive_sends (fst (snd (handle_request e l1 (truncated_hash p) u))) = []"
    by (rule ks_handle_request)
  show ?thesis using d k
  proof (cases pt)
    case None
    then show ?thesis using d k by (simp add: recv_request_def)
  next
    case (Some y)
    show ?thesis
    proof (cases "unpackb e y")
      case None
      then show ?thesis using d k Some by (simp add: recv_request_def ks_append)
    next
      case (Some u)
      obtain l2 ev2 r where hr: "handle_request e l1 (truncated_hash p) u = (l2, ev2, r)"
        by (cases "handle_request e l1 (truncated_hash p) u") auto
      have "keepalive_sends ev2 = []" using h [of u] hr by simp
      then show ?thesis using d k \<open>pt = Some y\<close> Some hr
        by (cases r) (simp_all add: recv_request_def ks_append)
    qed
  qed
qed

lemma ks_recv_response: "keepalive_sends (fst (snd (recv_response e now l p))) = []"
proof -
  obtain l1 ev1 pt where d: "decrypt e l (data p) = (l1, ev1, pt)" and k: "keepalive_sends ev1 = []"
    by (rule decrypt_split)
  show ?thesis using d k
    by (simp add: recv_response_def Let_def split_beta ks_append ks_handle_response
        split: option.split sum.split)
qed

lemma ks_recv_lrrtt: "keepalive_sends (fst (snd (recv_lrrtt e now l p))) = []"
  by (simp add: recv_lrrtt_def split_beta ks_rtt_packet)

lemma ks_recv_linkclose: "keepalive_sends (fst (snd (recv_linkclose e l p))) = []"
  by (simp add: recv_linkclose_def split_beta ks_teardown_packet)

lemma ks_recv_resource_adv: "keepalive_sends (fst (snd (recv_resource_adv e now l p))) = []"
proof -
  obtain l1 ev1 pt where d: "decrypt e l (data p) = (l1, ev1, pt)" and k: "keepalive_sends ev1 = []"
    by (rule decrypt_split)
  show ?thesis using d k
    by (simp add: recv_resource_adv_def Let_def split_beta ks_append ks_adv_loop
        split: option.split)
qed

lemma ks_recv_resource_req: "keepalive_sends (fst (snd (recv_resource_req e l p))) = []"
proof -
  obtain l1 ev1 pt where d: "decrypt e l (data p) = (l1, ev1, pt)" and k: "keepalive_sends ev1 = []"
    by (rule decrypt_split)
  show ?thesis using d k
    by (simp add: recv_resource_req_def Let_def ks_append ks_map split: option.split)
qed

lemma ks_recv_resource_hmu: "keepalive_sends (fst (snd (recv_resource_hmu e l p))) = []"
proof -
  obtain l1 ev1 pt where d: "decrypt e l (data p) = (l1, ev1, pt)" and k: "keepalive_sends ev1 = []"
    by (rule decrypt_split)
  show ?thesis using d k
    by (simp add: recv_resource_hmu_def Let_def ks_append ks_map split: option.split)
qed

lemma ks_recv_resource_icl: "keepalive_sends (fst (snd (recv_resource_icl e l p))) = []"
proof -
  obtain l1 ev1 pt where d: "decrypt e l (data p) = (l1, ev1, pt)" and k: "keepalive_sends ev1 = []"
    by (rule decrypt_split)
  show ?thesis using d k
    by (simp add: recv_resource_icl_def Let_def ks_append ks_map split: option.split)
qed

lemma ks_recv_resource_rcl: "keepalive_sends (fst (snd (recv_resource_rcl e l p))) = []"
proof -
  obtain l1 ev1 pt where d: "decrypt e l (data p) = (l1, ev1, pt)" and k: "keepalive_sends ev1 = []"
    by (rule decrypt_split)
  show ?thesis using d k
    by (simp add: recv_resource_rcl_def Let_def ks_append ks_map split: option.split)
qed

lemma ks_recv_resource: "keepalive_sends (fst (snd (recv_resource e l p))) = []"
  by (simp add: recv_resource_def ks_map)

lemma ks_recv_channel: "keepalive_sends (fst (snd (recv_channel e now l p))) = []"
proof -
  obtain l0 ev0 r where pp: "prove_packet e now l p = (l0, ev0, r)"
    and kp: "keepalive_sends ev0 = []"
    by (rule ks_prove_packet_split)
  obtain l1 ev1 pt where d: "decrypt e l0 (data p) = (l1, ev1, pt)"
    and k: "keepalive_sends ev1 = []"
    by (rule decrypt_split)
  show ?thesis using pp kp d k
    by (cases r) (simp_all add: recv_channel_def Let_def ks_append split: option.split)
qed

lemma ks_recv_resource_prf: "keepalive_sends (fst (snd (recv_resource_prf e l p))) = []"
  by (simp add: recv_resource_prf_def Let_def ks_map)

lemma ks_recv_keepalive:
  "keepalive_sends (fst (snd (recv_keepalive now l p)))
     = (if \<not> initiator l \<and> data p = [0xFF] then [[0xFE]] else [])"
  by (simp add: recv_keepalive_def)

lemmas ks_handlers = ks_recv_none ks_recv_linkidentify ks_recv_request ks_recv_response
  ks_recv_lrrtt ks_recv_linkclose ks_recv_resource_adv ks_recv_resource_req ks_recv_resource_hmu
  ks_recv_resource_icl ks_recv_resource_rcl ks_recv_resource ks_recv_channel
  ks_recv_resource_prf ks_recv_keepalive

lemma ks_dispatch:
  "keepalive_sends (fst (snd (receive_dispatch e now l p)))
     = (if packet_type p = DATA \<and> pcontext p = KEEPALIVE_CTX \<and> \<not> initiator l
           \<and> data p = [0xFF]
        then [[0xFE]] else [])"
proof (cases "packet_type p = DATA")
  case True
  then show ?thesis
    by (cases "pcontext p") (simp_all add: receive_dispatch_def ks_handlers)
next
  case False
  then show ?thesis by (simp add: receive_dispatch_def ks_handlers)
qed

lemma ks_receive:
  "keepalive_sends (fst (snd (receive e now l p)))
     = (if status l \<noteq> CLOSED \<and> receiving_interface p = attached_interface l
           \<and> packet_type p = DATA \<and> pcontext p = KEEPALIVE_CTX \<and> data p = [0xFF]
           \<and> \<not> initiator l
        then [[0xFE]] else [])"
proof -
  define x where "x = receive_accounting now (l\<lparr>watchdog_lock := True\<rparr>) p"
  have ix: "initiator x = initiator l" by (simp add: x_def receive_accounting_eq)
  obtain l1 ev r where d: "receive_dispatch e now x p = (l1, ev, r)"
    by (cases "receive_dispatch e now x p") auto
  have k: "keepalive_sends ev
             = (if packet_type p = DATA \<and> pcontext p = KEEPALIVE_CTX \<and> \<not> initiator l
                   \<and> data p = [0xFF]
                then [[0xFE]] else [])"
    using ks_dispatch [of e now x p] d ix by simp
  show ?thesis using d k unfolding x_def
    by (cases r) (auto simp add: receive_def Let_def)
qed

lemma receive_initiator_keepalive:
  "initiator l \<Longrightarrow> pcontext p = KEEPALIVE_CTX \<Longrightarrow> data p = [0xFF]
     \<Longrightarrow> receive e now l p = (l\<lparr>watchdog_lock := False\<rparr>, [], None)"
  by (simp add: receive_def Let_def)

lemma ks_timing_check:
  "keepalive_sends (fst (snd (watchdog_timing_check now l ev st))) = keepalive_sends ev"
  by (simp add: watchdog_timing_check_def Let_def split_beta ks_append ks_teardown)

lemma ks_watchdog:
  assumes "watchdog_job_step now l = Some (l', ev, r)"
  shows "keepalive_sends ev
           = (if status l = ACTIVE \<and> \<not> watchdog_lock l \<and> initiator l
                 \<and> now \<ge> watchdog_last_inbound l + keepalive l
                 \<and> now \<ge> last_keepalive l + keepalive l
              then [[0xFF]] else [])"
proof -
  have nc: "status l \<noteq> CLOSED" using assms by (auto simp add: watchdog_job_step_def)
  have t: "\<And>x es st x' es' r'. watchdog_timing_check now x es st = (x', es', r')
              \<Longrightarrow> keepalive_sends es' = keepalive_sends es"
    using ks_timing_check by (metis fst_conv snd_conv)
  show ?thesis
  proof (cases "watchdog_lock l")
    case True
    then show ?thesis using assms nc by (auto simp add: watchdog_job_step_def)
  next
    case False
    note nl = this
    show ?thesis
    proof (cases "status l")
      case PENDING
      then show ?thesis using assms nl
        by (auto simp add: watchdog_job_step_def Let_def split_beta link_closed_snd
            ks_link_closed_events dest!: t split: if_split_asm)
    next
      case HANDSHAKE
      then show ?thesis using assms nl
        by (auto simp add: watchdog_job_step_def Let_def split_beta link_closed_snd ks_append
            ks_link_closed_events dest!: t split: if_split_asm)
    next
      case ACTIVE
      then show ?thesis using assms nl
        by (auto simp add: watchdog_job_step_def Let_def split_beta watchdog_last_inbound_def
            send_keepalive_def dest!: t split: if_split_asm option.split_asm)
    next
      case STALE
      then show ?thesis using assms nl
        by (auto simp add: watchdog_job_step_def Let_def split_beta link_closed_snd ks_append
            Link__teardown_packet_def ks_link_closed_events dest!: t)
    next
      case CLOSED
      then show ?thesis using nc by simp
    qed
  qed
qed

text \<open>
  Claim C9.  Keep-alive traffic is asymmetric.  \<open>receive()\<close> sends a packet with context
  \<open>KEEPALIVE\<close> in exactly one case, and then exactly one, \<open>0xFE\<close>: on a responder, in reply
  to an accepted \<open>0xFF\<close> keep-alive.  A pass of the watchdog sends one in exactly one case,
  \<open>0xFF\<close>: on an \<open>ACTIVE\<close> initiator whose last inbound traffic and last keep-alive are both
  at least \<open>keepalive\<close> seconds old.  An inbound \<open>0xFF\<close> keep-alive on an initiator is ignored
  by \<open>receive()\<close> altogether.
\<close>

theorem keepalive_asymmetry:
  "keepalive_sends (fst (snd (receive e now l p)))
     = (if status l \<noteq> CLOSED \<and> receiving_interface p = attached_interface l
           \<and> packet_type p = DATA \<and> pcontext p = KEEPALIVE_CTX \<and> data p = [0xFF]
           \<and> \<not> initiator l
        then [[0xFE]] else [])
   \<and> (watchdog_job_step now l = Some (l', ev, r)
        \<longrightarrow> keepalive_sends ev
            = (if status l = ACTIVE \<and> \<not> watchdog_lock l \<and> initiator l
                  \<and> now \<ge> watchdog_last_inbound l + keepalive l
                  \<and> now \<ge> last_keepalive l + keepalive l
               then [[0xFF]] else []))
   \<and> (initiator l \<and> pcontext p = KEEPALIVE_CTX \<and> data p = [0xFF]
        \<longrightarrow> receive e now l p = (l\<lparr>watchdog_lock := False\<rparr>, [], None))"
  using ks_receive [of e now l p] ks_watchdog [of now l l' ev r]
    receive_initiator_keepalive [of l p e now]
  by blast

theorem keepalive_asymmetry_witness:
  "(\<exists>l' ev r. watchdog_job_step 600 example_active_link = Some (l', ev, r)
        \<and> keepalive_sends ev = [[0xFF]])
   \<and> (\<exists>l' ev r. watchdog_job_step 600 (example_active_link\<lparr>initiator := False\<rparr>)
                   = Some (l', ev, r)
        \<and> keepalive_sends ev = [])
   \<and> receive example_env 200 example_active_link (inbound DATA KEEPALIVE_CTX [0xFF] (Some 1))
       = (example_active_link\<lparr>watchdog_lock := False\<rparr>, [], None)
   \<and> keepalive_sends (fst (snd (receive example_env 200
          (example_active_link\<lparr>initiator := False\<rparr>)
          (inbound DATA KEEPALIVE_CTX [0xFF] (Some 1))))) = [[0xFE]]"
proof -
  let ?p = "inbound DATA KEEPALIVE_CTX [0xFF] (Some 1)"
  let ?r = "example_active_link\<lparr>initiator := False\<rparr>"
  have f: "status example_active_link = ACTIVE" "\<not> watchdog_lock example_active_link"
    "initiator example_active_link" "keepalive example_active_link = 360"
    "last_keepalive example_active_link = 0" "watchdog_last_inbound example_active_link = 150"
    "attached_interface example_active_link = Some 1"
    by (simp_all add: example_active_link_def example_link_def watchdog_last_inbound_def
        KEEPALIVE_def KEEPALIVE_MAX_def)
  have pk: "pcontext ?p = KEEPALIVE_CTX" "data ?p = [0xFF]" "packet_type ?p = DATA"
    "receiving_interface ?p = Some 1"
    by (simp_all add: inbound_def)
  have "watchdog_job_step 600 example_active_link \<noteq> None"
    by (simp add: watchdog_job_step_def Let_def split_beta send_keepalive_def had_outbound_def
        example_active_link_def example_link_def KEEPALIVE_def KEEPALIVE_MAX_def STALE_TIME_def
        STALE_FACTOR_def)
  then obtain l1 ev1 r1 where w1: "watchdog_job_step 600 example_active_link = Some (l1, ev1, r1)"
    by (cases "watchdog_job_step 600 example_active_link") auto
  have c1: "keepalive_sends ev1 = [[0xFF]]"
    using keepalive_asymmetry [of example_env 600 example_active_link ?p l1 ev1 r1] w1 f
    by simp
  have "watchdog_job_step 600 ?r \<noteq> None"
    by (simp add: watchdog_job_step_def Let_def split_beta send_keepalive_def had_outbound_def
        example_active_link_def example_link_def KEEPALIVE_def KEEPALIVE_MAX_def STALE_TIME_def
        STALE_FACTOR_def)
  then obtain l2 ev2 r2 where w2: "watchdog_job_step 600 ?r = Some (l2, ev2, r2)"
    by (cases "watchdog_job_step 600 ?r") auto
  have c2: "keepalive_sends ev2 = []"
    using keepalive_asymmetry [of example_env 600 ?r ?p l2 ev2 r2] w2 by simp
  have c3: "receive example_env 200 example_active_link ?p
              = (example_active_link\<lparr>watchdog_lock := False\<rparr>, [], None)"
    using keepalive_asymmetry [of example_env 200 example_active_link ?p] f(3) pk by blast
  have c4: "keepalive_sends (fst (snd (receive example_env 200 ?r ?p))) = [[0xFE]]"
    using keepalive_asymmetry [of example_env 200 ?r ?p] f pk by simp
  show ?thesis using w1 c1 w2 c2 c3 c4 by blast
qed

section \<open>What closing purges, what it keeps, and what a closed Link still does\<close>


















end
